theory Spec2Isabelle
  imports Complex_Main
begin

section \<open>Strings and addresses\<close>

text \<open>
  Token addresses are hexadecimal strings (\<open>0x...\<close>), so strings are modelled as
  ASCII character lists and JavaScript's \<open>String.prototype.toLowerCase\<close> as the map
  that sends \<open>A..Z\<close> to \<open>a..z\<close> and leaves every other character alone.
\<close>

definition upperToLower :: "(char \<times> char) list" where
  "upperToLower =
     [(CHR ''A'', CHR ''a''), (CHR ''B'', CHR ''b''), (CHR ''C'', CHR ''c''), (CHR ''D'', CHR ''d''),
      (CHR ''E'', CHR ''e''), (CHR ''F'', CHR ''f''), (CHR ''G'', CHR ''g''), (CHR ''H'', CHR ''h''),
      (CHR ''I'', CHR ''i''), (CHR ''J'', CHR ''j''), (CHR ''K'', CHR ''k''), (CHR ''L'', CHR ''l''),
      (CHR ''M'', CHR ''m''), (CHR ''N'', CHR ''n''), (CHR ''O'', CHR ''o''), (CHR ''P'', CHR ''p''),
      (CHR ''Q'', CHR ''q''), (CHR ''R'', CHR ''r''), (CHR ''S'', CHR ''s''), (CHR ''T'', CHR ''t''),
      (CHR ''U'', CHR ''u''), (CHR ''V'', CHR ''v''), (CHR ''W'', CHR ''w''), (CHR ''X'', CHR ''x''),
      (CHR ''Y'', CHR ''y''), (CHR ''Z'', CHR ''z'')]"

definition toLowerCase_char :: "char \<Rightarrow> char" where
  "toLowerCase_char c = (case map_of upperToLower c of None \<Rightarrow> c | Some l \<Rightarrow> l)"

definition toLowerCase :: "string \<Rightarrow> string" where
  "toLowerCase s = map toLowerCase_char s"

section \<open>Tokens (types)\<close>

text \<open>
  \<open>interface Token { address; symbol; name; decimals; logoURI?; chainId? }\<close>.
  A parameter of type \<open>Token | undefined | null\<close> is a \<open>Token option\<close>.
\<close>

record Token =
  address :: string
  symbol :: string
  name :: string
  decimals :: int
  logoURI :: "string option"
  chainId :: "int option"

section \<open>Offline part count (utils/PartCount.ts)\<close>

text \<open>
  \<open>HIGH_VALUE_TOKENS : ChainWrap<string[]>\<close>, the object literal of the source: an entry
  for Botanix Mainnet (3637) and one for Botanix Testnet (3636), no other key.
\<close>

definition HIGH_VALUE_TOKENS :: "int \<Rightarrow> string list option" where
  "HIGH_VALUE_TOKENS chain =
     (if chain = 3637 then Some
        [''0xEeeeeEeeeEeEeeEeEeEeeEEEeeeeEeeeeeeeEEeE'',
         ''0x0D2437F93Fed6EA64Ef01cCde385FB1263910C56'',
         ''0x29eE6138DD4C9815f46D34a4A1ed48F46758A402'',
         ''0x9BC574a6f1170e90D80826D86a6126d59198A3Ef'',
         ''0xA0b86a33E6441b8c4C8C0C4C0C4C0C4C0C4C0C4C'',
         ''0xdAC17F958D2ee523a2206206994597C13D831ec7'']
      else if chain = 3636 then Some
        [''0xEeeeeEeeeEeEeeEeEeEeeEEEeeeeEeeeeeeeEEeE'',
         ''0x233631132FD56c8f86D1FC97F0b82420a8d20af3'',
         ''0xA0b86a33E6441b8c4C8C0C4C0C4C0C4C0C4C0C4C'',
         ''0xdAC17F958D2ee523a2206206994597C13D831ec7'']
      else None)"

text \<open>
  \<open>isHighValueToken\<close>: \<open>!token?.address\<close> is true for a missing token and for the empty
  address; a chain without registry entry gives false; otherwise \<open>Array.some\<close> with the
  lowercase comparison.
\<close>

definition isHighValueToken :: "Token option \<Rightarrow> int \<Rightarrow> bool" where
  "isHighValueToken token chain =
     (case token of
        None \<Rightarrow> False
      | Some t \<Rightarrow>
          if address t = [] then False
          else (case HIGH_VALUE_TOKENS chain of
                  None \<Rightarrow> False
                | Some networkTokens \<Rightarrow>
                    list_ex (\<lambda>addr. toLowerCase addr = toLowerCase (address t)) networkTokens))"

text \<open>
  A parameter with a default value (\<open>defaultPartCount: number = 5\<close>) is an \<open>int option\<close>:
  \<open>None\<close> is the omitted argument.
\<close>

definition withDefault :: "int \<Rightarrow> int option \<Rightarrow> int" where
  "withDefault d arg = (case arg of None \<Rightarrow> d | Some v \<Rightarrow> v)"

definition getPartCountOffline ::
  "Token option \<Rightarrow> Token option \<Rightarrow> int \<Rightarrow> int option \<Rightarrow> int" where
  "getPartCountOffline srcToken dstToken chain defaultPartCount =
     (let srcIsHighValue = isHighValueToken srcToken chain;
          dstIsHighValue = isHighValueToken dstToken chain
      in if srcIsHighValue \<and> dstIsHighValue then withDefault 5 defaultPartCount else 1)"

text \<open>
  The registry of a chain as the specification reads it: the set of the lowercase
  addresses listed for the chain, empty for a chain without entry.
\<close>

definition highValueRegistry :: "int \<Rightarrow> string set" where
  "highValueRegistry chain =
     (case HIGH_VALUE_TOKENS chain of None \<Rightarrow> {} | Some addrs \<Rightarrow> set (map toLowerCase addrs))"

definition registered :: "Token option \<Rightarrow> int \<Rightarrow> bool" where
  "registered token chain =
     (case token of None \<Rightarrow> False | Some t \<Rightarrow> toLowerCase (address t) \<in> highValueRegistry chain)"

text \<open>Tokens of the test suite (\<open>__tests__/PartCount.test.ts\<close>).\<close>

definition mockToken :: Token where
  "mockToken = \<lparr>address = ''0x1234567890123456789012345678901234567890'', symbol = ''TEST'',
     name = ''Test Token'', decimals = 18, logoURI = None, chainId = Some 3637\<rparr>"

definition highValueToken :: Token where
  "highValueToken = \<lparr>address = ''0x0D2437F93Fed6EA64Ef01cCde385FB1263910C56'', symbol = ''pBTC'',
     name = ''Wrapped Bitcoin'', decimals = 18, logoURI = None, chainId = Some 3637\<rparr>"

definition usdcToken :: Token where
  "usdcToken = \<lparr>address = ''0xA0b86a33E6441b8c4C8C0C4C0C4C0C4C0C4C0C4C'', symbol = ''USDC'',
     name = ''USD Coin'', decimals = 18, logoURI = None, chainId = Some 3637\<rparr>"

definition upperCaseToken :: Token where
  "upperCaseToken = highValueToken\<lparr>address := ''0X0D2437F93FED6EA64EF01CCDE385FB1263910C56''\<rparr>"

section \<open>Threshold cache (utils/PartCount.ts)\<close>

text \<open>
  An exception is a value: \<open>Error\<close> for \<open>throw new Error(msg)\<close> and a rejected
  request, \<open>TypeError\<close> for a property read on \<open>null\<close> or \<open>undefined\<close>. An awaited
  promise either resolves to a value or rejects with an exception; a request that times
  out rejects.
\<close>

datatype js_error = Error string | TypeError string

datatype 'a outcome = Resolved 'a | Rejected js_error

text \<open>
  The payload of the threshold endpoint, \<open>{success, error?, data?}\<close> with \<open>data\<close> an
  array of \<open>{token, minimumAmount}\<close>. The source types the array as \<open>any[]\<close>: an entry
  may be \<open>null\<close> (\<open>None\<close> here) and an entry's \<open>token\<close> may be missing, which the
  source's \<open>item.token?.toLowerCase()\<close> allows for.
\<close>

record ThresholdItem =
  token :: "string option"
  minimumAmount :: string

record AssetMinimumResponse =
  resp_success :: bool
  resp_error :: "string option"
  resp_data :: "ThresholdItem option list option"

text \<open>\<open>interface MinimumAmountsCache { data; timestamp; expiresAt }\<close>\<close>

record MinimumAmountsCache =
  data :: "ThresholdItem option list"
  timestamp :: int
  expiresAt :: int

text \<open>
  The state the module owns or writes: the module variable \<open>minimumAmountsCache\<close>, the
  console, and the calls of \<open>apiClient.getAssetMinimum()\<close> issued so far, each with the
  base URL and API key the client was asked for. \<open>quoteCalls\<close> records the calls of the
  quoting service (amount, source address, destination address, part count), which the
  quote assembly below issues.
\<close>

datatype console_entry = Log string | Warn string js_error

record world =
  minimumAmountsCache :: "MinimumAmountsCache option"
  console :: "console_entry list"
  assetMinimumCalls :: "(string \<times> string option) list"
  quoteCalls :: "(string \<times> string \<times> string \<times> int) list"

text \<open>
  What one call reads from outside: the clock (\<open>Date.now()\<close>, milliseconds) and how the
  threshold request would settle if it is issued.
\<close>

record io =
  dateNow :: int
  assetMinimum :: "AssetMinimumResponse outcome"

definition CACHE_DURATION :: int where
  "CACHE_DURATION = 5 * 60 * 1000"

definition consoleLog :: "string \<Rightarrow> world \<Rightarrow> world" where
  "consoleLog msg w = w\<lparr>console := console w @ [Log msg]\<rparr>"

definition consoleWarn :: "string \<Rightarrow> js_error \<Rightarrow> world \<Rightarrow> world" where
  "consoleWarn msg e w = w\<lparr>console := console w @ [Warn msg e]\<rparr>"

text \<open>\<open>x || fallback\<close> on an optional string: the fallback for a missing or empty one.\<close>

definition orElse :: "string option \<Rightarrow> string \<Rightarrow> string" where
  "orElse x fallback = (case x of None \<Rightarrow> fallback | Some s \<Rightarrow> if s = [] then fallback else s)"

text \<open>The second half of \<open>getMinimumAmounts\<close>: the request and the cache update.\<close>

definition fetchFreshMinimumAmounts ::
  "io \<Rightarrow> string \<Rightarrow> string option \<Rightarrow> world \<Rightarrow> (js_error + ThresholdItem option list) \<times> world" where
  "fetchFreshMinimumAmounts env apiBaseUrl apiKey w =
     (let now = dateNow env;
          w1 = consoleLog ''Fetching fresh minimum amounts data from API'' w;
          w2 = w1\<lparr>assetMinimumCalls := assetMinimumCalls w1 @ [(apiBaseUrl, apiKey)]\<rparr>
      in case assetMinimum env of
           Rejected e \<Rightarrow> (Inl e, w2)
         | Resolved response \<Rightarrow>
             if \<not> resp_success response
             then (Inl (Error (''API request failed: '' @ orElse (resp_error response) ''Unknown error'')), w2)
             else (let entry = \<lparr>data = (case resp_data response of None \<Rightarrow> [] | Some d \<Rightarrow> d),
                                 timestamp = now, expiresAt = now + CACHE_DURATION\<rparr>
                   in (Inr (data entry), w2\<lparr>minimumAmountsCache := Some entry\<rparr>)))"

definition getMinimumAmounts ::
  "io \<Rightarrow> string \<Rightarrow> string option \<Rightarrow> world \<Rightarrow> (js_error + ThresholdItem option list) \<times> world" where
  "getMinimumAmounts env apiBaseUrl apiKey w =
     (let now = dateNow env
      in case minimumAmountsCache w of
           None \<Rightarrow> fetchFreshMinimumAmounts env apiBaseUrl apiKey w
         | Some cache \<Rightarrow>
             if now < expiresAt cache
             then (Inr (data cache), consoleLog ''Using cached minimum amounts data'' w)
             else fetchFreshMinimumAmounts env apiBaseUrl apiKey w)"

definition clearMinimumAmountsCache :: "world \<Rightarrow> world" where
  "clearMinimumAmountsCache w =
     consoleLog ''Minimum amounts cache cleared'' (w\<lparr>minimumAmountsCache := None\<rparr>)"

text \<open>
  \<open>getMinimumAmounts\<close> is an \<open>async\<close> function. A call runs from its first line to
  \<open>await apiClient.getAssetMinimum()\<close>: it reads the clock and the cache and either
  returns the cached records or issues the request and suspends, keeping its clock
  reading \<open>now\<close>. When the request settles, the call runs on from there: it throws, or
  writes the cache entry (with the \<open>now\<close> it kept) and returns. Other calls and
  \<open>clearMinimumAmountsCache\<close> may run while it is suspended. The two halves follow;
  \<open>getMinimumAmounts\<close> above is the first half followed at once by the second.
\<close>

datatype get_step = Done "ThresholdItem option list" | Awaiting int

definition getMinimumAmounts_start ::
  "int \<Rightarrow> string \<Rightarrow> string option \<Rightarrow> world \<Rightarrow> get_step \<times> world" where
  "getMinimumAmounts_start now apiBaseUrl apiKey w =
     (let w1 = consoleLog ''Fetching fresh minimum amounts data from API'' w;
          w2 = w1\<lparr>assetMinimumCalls := assetMinimumCalls w1 @ [(apiBaseUrl, apiKey)]\<rparr>
      in case minimumAmountsCache w of
           None \<Rightarrow> (Awaiting now, w2)
         | Some cache \<Rightarrow>
             if now < expiresAt cache
             then (Done (data cache), consoleLog ''Using cached minimum amounts data'' w)
             else (Awaiting now, w2))"

definition getMinimumAmounts_resume ::
  "int \<Rightarrow> AssetMinimumResponse outcome \<Rightarrow> world \<Rightarrow> (js_error + ThresholdItem option list) \<times> world" where
  "getMinimumAmounts_resume now settled w =
     (case settled of
        Rejected e \<Rightarrow> (Inl e, w)
      | Resolved response \<Rightarrow>
          if \<not> resp_success response
          then (Inl (Error (''API request failed: '' @ orElse (resp_error response) ''Unknown error'')), w)
          else (let entry = \<lparr>data = (case resp_data response of None \<Rightarrow> [] | Some d \<Rightarrow> d),
                              timestamp = now, expiresAt = now + CACHE_DURATION\<rparr>
                in (Inr (data entry), w\<lparr>minimumAmountsCache := Some entry\<rparr>)))"

text \<open>
  The event loop around the cache: the state of the module together with the clock
  readings of the calls that are suspended at the \<open>await\<close>, in the order they started.
  An event is the start of a call of \<open>getMinimumAmounts\<close> at a clock reading, the
  settling of the request of the suspended call at an index, or a call of
  \<open>clearMinimumAmountsCache\<close>. Each event is observed: the records a call returns,
  the exception it throws, that it suspended, that the cache was cleared, or nothing for
  a settling without suspended call.
\<close>

record system =
  sysWorld :: world
  inFlight :: "int list"

datatype event =
  GetStart int string "string option"
| GetSettle nat "AssetMinimumResponse outcome"
| ClearCache

datatype observation =
  Returned "ThresholdItem option list"
| Threw js_error
| Suspended
| Cleared
| Ignored

fun step :: "event \<Rightarrow> system \<Rightarrow> observation \<times> system" where
  "step (GetStart now apiBaseUrl apiKey) s =
     (case getMinimumAmounts_start now apiBaseUrl apiKey (sysWorld s) of
        (Done records, w) \<Rightarrow> (Returned records, s\<lparr>sysWorld := w\<rparr>)
      | (Awaiting t, w) \<Rightarrow> (Suspended, s\<lparr>sysWorld := w, inFlight := inFlight s @ [t]\<rparr>))"
| "step (GetSettle i settled) s =
     (if i < length (inFlight s)
      then (case getMinimumAmounts_resume (inFlight s ! i) settled (sysWorld s) of
              (r, w) \<Rightarrow>
                ((case r of Inr records \<Rightarrow> Returned records | Inl e \<Rightarrow> Threw e),
                 s\<lparr>sysWorld := w, inFlight := take i (inFlight s) @ drop (Suc i) (inFlight s)\<rparr>))
      else (Ignored, s))"
| "step ClearCache s = (Cleared, s\<lparr>sysWorld := clearMinimumAmountsCache (sysWorld s)\<rparr>)"

fun run :: "event list \<Rightarrow> system \<Rightarrow> observation list \<times> system" where
  "run [] s = ([], s)"
| "run (ev # evs) s =
     (let (ob, s1) = step ev s;
          (obs, s2) = run evs s1
      in (ob # obs, s2))"

text \<open>
  Events that leave the cache entry as it is: starts of calls, and settlings that make
  the suspended call throw. A clear removes the entry and a successful settling replaces
  it.
\<close>

fun keepsEntry :: "event \<Rightarrow> bool" where
  "keepsEntry (GetStart now apiBaseUrl apiKey) = True"
| "keepsEntry (GetSettle i (Rejected e)) = True"
| "keepsEntry (GetSettle i (Resolved response)) = (\<not> resp_success response)"
| "keepsEntry ClearCache = False"

text \<open>
  The requests the starts among the events issue when the entry is \<open>entry\<close> throughout:
  one for each start at a clock reading at which the entry is not live.
\<close>

fun requestsOf :: "MinimumAmountsCache option \<Rightarrow> event list \<Rightarrow> (string \<times> string option) list" where
  "requestsOf entry [] = []"
| "requestsOf entry (GetStart now apiBaseUrl apiKey # evs) =
     (case entry of
        None \<Rightarrow> (apiBaseUrl, apiKey) # requestsOf entry evs
      | Some cache \<Rightarrow>
          if now < expiresAt cache then requestsOf entry evs
          else (apiBaseUrl, apiKey) # requestsOf entry evs)"
| "requestsOf entry (ev # evs) = requestsOf entry evs"

definition recordsOf :: "AssetMinimumResponse \<Rightarrow> ThresholdItem option list" where
  "recordsOf response = (case resp_data response of None \<Rightarrow> [] | Some d \<Rightarrow> d)"

section \<open>Online part count (utils/PartCount.ts)\<close>

text \<open>
  bignumber.js is an external library: its values are modelled as exact rationals with
  the two infinities and \<open>NaN\<close>, its comparison \<open>gte\<close> is false as soon as one side is
  \<open>NaN\<close>, and its constructor from a string is a parameter (\<open>newBigNumber\<close>) of every
  function that calls it.
\<close>

datatype BigNumber = NaN | NegInfinity | Finite rat | PosInfinity

fun gte :: "BigNumber \<Rightarrow> BigNumber \<Rightarrow> bool" where
  "gte NaN b = False"
| "gte a NaN = False"
| "gte PosInfinity b = True"
| "gte a NegInfinity = True"
| "gte NegInfinity b = False"
| "gte a PosInfinity = False"
| "gte (Finite x) (Finite y) = (y \<le> x)"

text \<open>
  \<open>Array.prototype.find\<close> with a callback that may throw: the first element the callback
  accepts, \<open>undefined\<close> (\<open>None\<close>) when there is none, or the exception of the first
  callback that throws before a match.
\<close>

fun find_js :: "('a \<Rightarrow> js_error + bool) \<Rightarrow> 'a list \<Rightarrow> js_error + 'a option" where
  "find_js p [] = Inr None"
| "find_js p (x # xs) =
     (case p x of
        Inl e \<Rightarrow> Inl e
      | Inr b \<Rightarrow> if b then Inr (Some x) else find_js p xs)"

text \<open>
  The callback \<open>(item) => item.token?.toLowerCase() === tok.address.toLowerCase()\<close>:
  reading \<open>token\<close> of a \<open>null\<close> entry throws, a missing \<open>token\<close> compares unequal.
\<close>

definition tokenMatches :: "Token \<Rightarrow> ThresholdItem option \<Rightarrow> js_error + bool" where
  "tokenMatches tok item =
     (case item of
        None \<Rightarrow> Inl (TypeError ''Cannot read properties of null (reading token)'')
      | Some it \<Rightarrow>
          Inr (case token it of
                 None \<Rightarrow> False
               | Some a \<Rightarrow> toLowerCase a = toLowerCase (address tok)))"

text \<open>
  \<open>rec && amountInBN.gte(rec.minimumAmount)\<close> for the result of a lookup: \<open>undefined\<close>
  (nothing found) and \<open>null\<close> are falsy.
\<close>

definition meetsMinimum ::
  "(string \<Rightarrow> BigNumber) \<Rightarrow> BigNumber \<Rightarrow> ThresholdItem option option \<Rightarrow> bool" where
  "meetsMinimum newBigNumber amountInBN rec =
     (case rec of
        Some (Some it) \<Rightarrow> gte amountInBN (newBigNumber (minimumAmount it))
      | _ \<Rightarrow> False)"

definition msgMeets :: string where
  "msgMeets = ''Amount meets minimum threshold for both tokens, using partCount = 5''"

definition msgBelow :: string where
  "msgBelow = ''Amount below minimum threshold or missing data, falling back to offline logic''"

text \<open>The body of the \<open>try\<close> block of \<open>getPartCountOnline\<close>.\<close>

definition getPartCountOnline_try ::
  "(string \<Rightarrow> BigNumber) \<Rightarrow> io \<Rightarrow> Token \<Rightarrow> Token \<Rightarrow> string \<Rightarrow> int \<Rightarrow> string \<Rightarrow> string option
     \<Rightarrow> int \<Rightarrow> world \<Rightarrow> (js_error + int) \<times> world" where
  "getPartCountOnline_try newBigNumber env srcToken dstToken amountIn chain apiBaseUrl apiKey
       fallbackPartCount w =
     (let w0 = consoleLog ''Fetching online partCount data...'' w
      in case getMinimumAmounts env apiBaseUrl apiKey w0 of
           (Inl e, w1) \<Rightarrow> (Inl e, w1)
         | (Inr minimumData, w1) \<Rightarrow>
             (case find_js (tokenMatches srcToken) minimumData of
                Inl e \<Rightarrow> (Inl e, w1)
              | Inr srcTokenMin \<Rightarrow>
                  (case find_js (tokenMatches dstToken) minimumData of
                     Inl e \<Rightarrow> (Inl e, w1)
                   | Inr dstTokenMin \<Rightarrow>
                       (let amountInBN = newBigNumber amountIn
                        in if meetsMinimum newBigNumber amountInBN srcTokenMin
                              \<and> meetsMinimum newBigNumber amountInBN dstTokenMin
                           then (Inr 5, consoleLog msgMeets w1)
                           else (Inr (getPartCountOffline (Some srcToken) (Some dstToken) chain
                                        (Some fallbackPartCount)),
                                 consoleLog msgBelow w1)))))"

text \<open>
  \<open>getPartCountOnline\<close>: the \<open>try\<close> block, and the \<open>catch\<close> block for whatever it
  throws. The result is a sum, so that an exception leaving the function would be a value
  \<open>Inl\<close>.
\<close>

definition getPartCountOnline ::
  "(string \<Rightarrow> BigNumber) \<Rightarrow> io \<Rightarrow> Token \<Rightarrow> Token \<Rightarrow> string \<Rightarrow> int \<Rightarrow> string \<Rightarrow> string option
     \<Rightarrow> int option \<Rightarrow> world \<Rightarrow> (js_error + int) \<times> world" where
  "getPartCountOnline newBigNumber env srcToken dstToken amountIn chain apiBaseUrl apiKey
       fallbackPartCount w =
     (let fallback = withDefault 5 fallbackPartCount
      in case getPartCountOnline_try newBigNumber env srcToken dstToken amountIn chain apiBaseUrl
                apiKey fallback w of
           (Inr n, w1) \<Rightarrow> (Inr n, w1)
         | (Inl e, w1) \<Rightarrow>
             (Inr (getPartCountOffline (Some srcToken) (Some dstToken) chain (Some fallback)),
              consoleLog ''Falling back to offline partCount logic''
                (consoleWarn ''Failed to fetch online partCount data:'' e w1)))"

text \<open>
  \<open>getPartCountWithFallback\<close>: note the order of its last two parameters
  (\<open>fallbackPartCount\<close>, then \<open>apiKey\<close>), swapped in the call of \<open>getPartCountOnline\<close>.
\<close>

definition getPartCountWithFallback ::
  "(string \<Rightarrow> BigNumber) \<Rightarrow> io \<Rightarrow> Token \<Rightarrow> Token \<Rightarrow> string \<Rightarrow> int \<Rightarrow> string \<Rightarrow> int option
     \<Rightarrow> string option \<Rightarrow> world \<Rightarrow> (js_error + int) \<times> world" where
  "getPartCountWithFallback newBigNumber env srcToken dstToken amountIn chain apiBaseUrl
       fallbackPartCount apiKey w =
     (let fallback = withDefault 5 fallbackPartCount
      in case getPartCountOnline newBigNumber env srcToken dstToken amountIn chain apiBaseUrl
                apiKey (Some fallback) w of
           (Inr n, w1) \<Rightarrow> (Inr n, w1)
         | (Inl e, w1) \<Rightarrow>
             (Inr fallback, consoleWarn ''Online partCount failed, using offline fallback:'' e w1))"

text \<open>
  A constructor for the examples: plain decimal notation (an optional minus sign, digits,
  an optional fraction), \<open>NaN\<close> for every other string.
\<close>

definition digitValue :: "char \<Rightarrow> nat option" where
  "digitValue c =
     map_of [(CHR ''0'', 0), (CHR ''1'', 1), (CHR ''2'', 2), (CHR ''3'', 3), (CHR ''4'', 4),
             (CHR ''5'', 5), (CHR ''6'', 6), (CHR ''7'', 7), (CHR ''8'', 8), (CHR ''9'', 9)] c"

fun parseDigits :: "nat \<Rightarrow> string \<Rightarrow> nat option" where
  "parseDigits acc [] = Some acc"
| "parseDigits acc (c # cs) =
     (case digitValue c of None \<Rightarrow> None | Some d \<Rightarrow> parseDigits (10 * acc + d) cs)"

definition parseUnsigned :: "string \<Rightarrow> rat option" where
  "parseUnsigned s =
     (let whole = takeWhile (\<lambda>c. c \<noteq> CHR ''.'') s;
          frac = drop 1 (dropWhile (\<lambda>c. c \<noteq> CHR ''.'') s)
      in if whole = [] \<and> frac = [] then None
         else (case (parseDigits 0 whole, parseDigits 0 frac) of
                 (Some i, Some f) \<Rightarrow> Some (of_nat i + of_nat f / 10 ^ length frac)
               | _ \<Rightarrow> None))"

definition decimalBigNumber :: "string \<Rightarrow> BigNumber" where
  "decimalBigNumber s =
     (case s of
        [] \<Rightarrow> NaN
      | c # cs \<Rightarrow>
          if c = CHR ''-''
          then (case parseUnsigned cs of None \<Rightarrow> NaN | Some r \<Rightarrow> Finite (- r))
          else (case parseUnsigned s of None \<Rightarrow> NaN | Some r \<Rightarrow> Finite r))"

section \<open>Token helpers (utils/index.ts)\<close>

definition isNativeToken :: "Token \<Rightarrow> string \<Rightarrow> bool" where
  "isNativeToken tok nativeAddr \<longleftrightarrow> toLowerCase (address tok) = toLowerCase nativeAddr"

definition isWrappedToken :: "Token \<Rightarrow> string \<Rightarrow> bool" where
  "isWrappedToken tok wrappedAddr \<longleftrightarrow> toLowerCase (address tok) = toLowerCase wrappedAddr"

text \<open>
  \<open>validateTokens\<close>: the chain of \<open>&&\<close> read for its truth value. The addresses are
  compared with \<open>!==\<close>, as they are written.
\<close>

definition validateTokens :: "Token option \<Rightarrow> Token option \<Rightarrow> bool" where
  "validateTokens srcToken dstToken =
     (case srcToken of
        None \<Rightarrow> False
      | Some s \<Rightarrow>
          (case dstToken of
             None \<Rightarrow> False
           | Some d \<Rightarrow>
               address s \<noteq> [] \<and> address d \<noteq> [] \<and> address s \<noteq> address d
               \<and> chainId s = chainId d))"

section \<open>Quote assembly (services/SwapV3Service.ts, modelled from the specification)\<close>

text \<open>
  \<open>interface NetworkConfig\<close> of the types module. The network table
  (\<open>getContractAddresses\<close> of the constants module) is a parameter: a chain without
  entry is an unsupported network.
\<close>

record NetworkConfig =
  routerAddress :: string
  bitzyQueryAddress :: string
  wrappedAddress :: string
  nativeAddress :: string

text \<open>
  Modelled from the spec: the failures of section 7 that \<open>fetchRoute\<close> of the missing
  SwapV3Service raises. The message of an unsupported network is the one the tests of
  \<open>fetchSwapRoute\<close> expect (\<open>Unsupported network: 9999\<close>).
\<close>

datatype swap_failure =
  UnsupportedNetworkError int
| ValidationError string
| ServiceFetchError string

text \<open>Decimal digits of a chain id, for the message.\<close>

fun natDigits :: "nat \<Rightarrow> string" where
  "natDigits n =
     (if n < 10 then [''0123456789'' ! n]
      else natDigits (n div 10) @ [''0123456789'' ! (n mod 10)])"

definition intDigits :: "int \<Rightarrow> string" where
  "intDigits i = (if i < 0 then CHR ''-'' # natDigits (nat (- i)) else natDigits (nat i))"

fun failureMessage :: "swap_failure \<Rightarrow> string" where
  "failureMessage (UnsupportedNetworkError chain) = ''Unsupported network: '' @ intDigits chain"
| "failureMessage (ValidationError msg) = msg"
| "failureMessage (ServiceFetchError msg) = msg"

text \<open>
  Modelled from the spec: the request, route and result types of section 3
  (\<open>SwapRequest\<close>, \<open>RouteSegment\<close>, \<open>Route\<close>, \<open>SwapResult\<close>); amounts are exact decimals.
  The fields of a request carry the prefix \<open>req\<close>.
\<close>

record SwapRequest =
  reqAmountIn :: string
  reqSrcToken :: "Token option"
  reqDstToken :: "Token option"
  reqChainId :: int
  reqPartCount :: "int option"
  reqForcePartCount :: "int option"
  reqOnlinePartCount :: "bool option"

record RouteSegment =
  router :: string
  pool :: string
  fromToken :: string
  toToken :: string
  fromMarker :: string
  toMarker :: string
  partSizeFixedPoint :: string
  amountAfterFeeFixedPoint :: string
  sourceType :: int

type_synonym Route = "RouteSegment list"

datatype wrap_kind = Wrap | Unwrap

record SwapResult =
  routes :: "Route list"
  distributions :: "int list"
  amountOutPerRoute :: "rat list"
  amountOutTotal :: rat
  amountInPerPart :: "rat list"
  isAmountOutError :: bool
  isWrap :: "wrap_kind option"

text \<open>
  Modelled from the spec: the answer of the external quoting service (section 6) for a
  part count: routes, integer weights, per-part outputs and the total output.
\<close>

record QuoteResponse =
  quotedRoutes :: "Route list"
  quotedDistribution :: "int list"
  quotedAmountOutPerRoute :: "rat list"
  quotedAmountOutTotal :: rat

text \<open>
  Modelled from the spec: the configuration surface of section 6, as far as the
  assembler reads it (fields with the prefix \<open>cfg\<close>). \<open>cfgRoundAmount\<close> is the
  rounding the decimal arithmetic applies to a quotient; nothing is assumed about it.
\<close>

record AssemblerConfig =
  cfgNetworks :: "int \<Rightarrow> NetworkConfig option"
  cfgDefaultPartCount :: int
  cfgApiBaseUrl :: string
  cfgApiKey :: "string option"
  cfgRoundAmount :: "rat \<Rightarrow> rat"

text \<open>
  Modelled from the spec: step 5 of section 4.4, the splitting that \<open>fetchRoute\<close> of the
  missing SwapV3Service performs. Every part but the last is the rounded
  \<open>amountIn * distribution[i] / 100\<close>; the last part is what is left of \<open>amountIn\<close>, so
  that it takes the residual rounding.
\<close>

fun splitAmountFrom :: "(rat \<Rightarrow> rat) \<Rightarrow> rat \<Rightarrow> rat \<Rightarrow> int list \<Rightarrow> rat list" where
  "splitAmountFrom rnd amountIn assigned [] = []"
| "splitAmountFrom rnd amountIn assigned [d] = [amountIn - assigned]"
| "splitAmountFrom rnd amountIn assigned (d # ds) =
     (let part = rnd (amountIn * of_int d / 100)
      in part # splitAmountFrom rnd amountIn (assigned + part) ds)"

definition splitAmount :: "(rat \<Rightarrow> rat) \<Rightarrow> rat \<Rightarrow> int list \<Rightarrow> rat list" where
  "splitAmount rnd amountIn distribution = splitAmountFrom rnd amountIn 0 distribution"

text \<open>
  Modelled from the spec: step 1 of section 4.4 and the request invariant of section 3,
  the validation of the missing SwapV3Service. An unknown chain is an
  \<open>UnsupportedNetworkError\<close>; missing tokens, a token of another chain, identical tokens
  (addresses compared in lowercase) and an amount that is not a positive number are a
  \<open>ValidationError\<close>. A valid request yields the network entry, both tokens and the
  amount.
\<close>

definition validateRequest ::
  "AssemblerConfig \<Rightarrow> (string \<Rightarrow> BigNumber) \<Rightarrow> SwapRequest
     \<Rightarrow> swap_failure + (NetworkConfig \<times> Token \<times> Token \<times> rat)" where
  "validateRequest cfg newBigNumber req =
     (case cfgNetworks cfg (reqChainId req) of
        None \<Rightarrow> Inl (UnsupportedNetworkError (reqChainId req))
      | Some net \<Rightarrow>
          (case reqSrcToken req of
             None \<Rightarrow> Inl (ValidationError ''Missing source token'')
           | Some s \<Rightarrow>
               (case reqDstToken req of
                  None \<Rightarrow> Inl (ValidationError ''Missing destination token'')
                | Some d \<Rightarrow>
                    if chainId s \<noteq> Some (reqChainId req) \<or> chainId d \<noteq> Some (reqChainId req)
                    then Inl (ValidationError ''Token chain mismatch'')
                    else if toLowerCase (address s) = toLowerCase (address d)
                    then Inl (ValidationError ''Identical tokens'')
                    else (case newBigNumber (reqAmountIn req) of
                            Finite a \<Rightarrow>
                              if 0 < a then Inr (net, s, d, a)
                              else Inl (ValidationError ''Amount must be positive'')
                          | _ \<Rightarrow> Inl (ValidationError ''Amount is not a number'')))))"

text \<open>
  Modelled from the spec: \<open>resolve\<close> of section 4.1 (PartCountResolver). With online
  mode the online decision is taken and a forced part count is ignored; without it a
  forced part count is returned as it is, and the offline decision otherwise.
\<close>

definition resolvePartCount ::
  "AssemblerConfig \<Rightarrow> (string \<Rightarrow> BigNumber) \<Rightarrow> io \<Rightarrow> SwapRequest \<Rightarrow> Token \<Rightarrow> Token \<Rightarrow> world
     \<Rightarrow> int \<times> world" where
  "resolvePartCount cfg newBigNumber env req s d w =
     (if reqOnlinePartCount req = Some True
      then (case getPartCountOnline newBigNumber env s d (reqAmountIn req) (reqChainId req)
                   (cfgApiBaseUrl cfg) (cfgApiKey cfg) (Some (cfgDefaultPartCount cfg)) w of
              (Inr n, w1) \<Rightarrow> (n, w1)
            | (Inl e, w1) \<Rightarrow>
                (getPartCountOffline (Some s) (Some d) (reqChainId req) (Some (cfgDefaultPartCount cfg)), w1))
      else (case reqForcePartCount req of
              Some forced \<Rightarrow> (forced, w)
            | None \<Rightarrow>
                (getPartCountOffline (Some s) (Some d) (reqChainId req) (Some (cfgDefaultPartCount cfg)), w)))"

definition wrapResult :: "wrap_kind \<Rightarrow> rat \<Rightarrow> SwapResult" where
  "wrapResult kind amount =
     \<lparr>routes = [], distributions = [], amountOutPerRoute = [], amountOutTotal = amount,
      amountInPerPart = [], isAmountOutError = False, isWrap = Some kind\<rparr>"

text \<open>
  Modelled from the spec: \<open>fetchRoute\<close> of section 4.4 (QuoteAssembler), the missing
  SwapV3Service. \<open>quote\<close> is how the quoting service would settle for a part count; the
  one call of the service is recorded in \<open>quoteCalls\<close>.
\<close>

definition fetchRoute ::
  "AssemblerConfig \<Rightarrow> (string \<Rightarrow> BigNumber) \<Rightarrow> io \<Rightarrow> (int \<Rightarrow> QuoteResponse outcome)
     \<Rightarrow> SwapRequest \<Rightarrow> world \<Rightarrow> (swap_failure + SwapResult) \<times> world" where
  "fetchRoute cfg newBigNumber env quote req w =
     (case validateRequest cfg newBigNumber req of
        Inl failure \<Rightarrow> (Inl failure, w)
      | Inr (net, s, d, amount) \<Rightarrow>
          if isNativeToken s (nativeAddress net) \<and> isWrappedToken d (wrappedAddress net)
          then (Inr (wrapResult Wrap amount), w)
          else if isWrappedToken s (wrappedAddress net) \<and> isNativeToken d (nativeAddress net)
          then (Inr (wrapResult Unwrap amount), w)
          else
            (let (parts, w1) =
                   (case reqPartCount req of
                      Some p \<Rightarrow> (p, w)
                    | None \<Rightarrow> resolvePartCount cfg newBigNumber env req s d w);
                 w2 = w1\<lparr>quoteCalls := quoteCalls w1 @ [(reqAmountIn req, address s, address d, parts)]\<rparr>
             in case quote parts of
                  Rejected e \<Rightarrow>
                    (Inl (ServiceFetchError (case e of Error m \<Rightarrow> m | TypeError m \<Rightarrow> m)), w2)
                | Resolved q \<Rightarrow>
                    (Inr \<lparr>routes = quotedRoutes q,
                          distributions = quotedDistribution q,
                          amountOutPerRoute = quotedAmountOutPerRoute q,
                          amountOutTotal = quotedAmountOutTotal q,
                          amountInPerPart = splitAmount (cfgRoundAmount cfg) amount (quotedDistribution q),
                          isAmountOutError =
                            (quotedRoutes q = [] \<or> quotedAmountOutTotal q \<le> 0
                             \<or> list_ex (\<lambda>r. r = []) (quotedRoutes q)),
                          isWrap = None\<rparr>, w2)))"

section \<open>Batches (common/FetchSwapRoute.ts, modelled from the specification)\<close>

text \<open>
  Modelled from the spec: \<open>runBatch\<close> of section 4.5 (\<open>fetchBatchSwapRoutes\<close> of the
  missing common/FetchSwapRoute). An item is a request with its optional configuration,
  together with what its own run reads from outside; an item's failure becomes the
  result \<open>{success: false, error: message}\<close> of that item. The items' effects on the
  shared state are taken in the order of the items.
\<close>

record BatchItem =
  options :: SwapRequest
  config :: "AssemblerConfig option"
  itemIo :: io
  itemQuote :: "int \<Rightarrow> QuoteResponse outcome"

record BatchResult =
  success :: bool
  swapData :: "SwapResult option"
  errorMessage :: "string option"

definition settle :: "swap_failure + SwapResult \<Rightarrow> BatchResult" where
  "settle r =
     (case r of
        Inr res \<Rightarrow> \<lparr>success = True, swapData = Some res, errorMessage = None\<rparr>
      | Inl failure \<Rightarrow> \<lparr>success = False, swapData = None, errorMessage = Some (failureMessage failure)\<rparr>)"

definition runItem ::
  "AssemblerConfig \<Rightarrow> (string \<Rightarrow> BigNumber) \<Rightarrow> BatchItem \<Rightarrow> world
     \<Rightarrow> (swap_failure + SwapResult) \<times> world" where
  "runItem defaults newBigNumber item w =
     fetchRoute (case config item of None \<Rightarrow> defaults | Some c \<Rightarrow> c) newBigNumber
       (itemIo item) (itemQuote item) (options item) w"

fun runBatch ::
  "AssemblerConfig \<Rightarrow> (string \<Rightarrow> BigNumber) \<Rightarrow> BatchItem list \<Rightarrow> world
     \<Rightarrow> BatchResult list \<times> world" where
  "runBatch defaults newBigNumber [] w = ([], w)"
| "runBatch defaults newBigNumber (item # items) w =
     (let (r, w1) = runItem defaults newBigNumber item w;
          (rs, w2) = runBatch defaults newBigNumber items w1
      in (settle r # rs, w2))"

text \<open>
  The network table of the examples: the addresses \<open>BitzySwapSDK.ts\<close> falls back to for
  Botanix Mainnet (3637).
\<close>

definition botanixNetworks :: "int \<Rightarrow> NetworkConfig option" where
  "botanixNetworks chain =
     (if chain = 3637 then Some
        \<lparr>routerAddress = ''0xA5E0AE4e5103dc71cA290AA3654830442357A489'',
         bitzyQueryAddress = ''0x5b5079587501Bd85d3CDf5bFDf299f4eaAe98c23'',
         wrappedAddress = ''0x0D2437F93Fed6EA64Ef01cCde385FB1263910C56'',
         nativeAddress = ''0xEeeeeEeeeEeEeeEeEeEeeEEEeeeeEeeeeeeeEEeE''\<rparr>
      else None)"

definition exampleConfig :: AssemblerConfig where
  "exampleConfig =
     \<lparr>cfgNetworks = botanixNetworks, cfgDefaultPartCount = 5,
      cfgApiBaseUrl = ''https://api-public.bitzy.app'', cfgApiKey = None,
      cfgRoundAmount = (\<lambda>x. of_int \<lfloor>x\<rfloor>)\<rparr>"

definition nativeToken :: Token where
  "nativeToken = \<lparr>address = ''0xEeeeeEeeeEeEeeEeEeEeeEEEeeeeEeeeeeeeEEeE'', symbol = ''BTC'',
     name = ''Bitcoin'', decimals = 18, logoURI = None, chainId = Some 3637\<rparr>"

definition lowerCaseToken :: Token where
  "lowerCaseToken = highValueToken\<lparr>address := ''0x0d2437f93fed6ea64ef01ccde385fb1263910c56''\<rparr>"

definition emptyWorld :: world where
  "emptyWorld = \<lparr>minimumAmountsCache = None, console = [], assetMinimumCalls = [], quoteCalls = []\<rparr>"

text \<open>
  Threshold payloads of the examples: one with a record for the native token and one for
  USDC.e, one with the native token's record only (the scenario of section 8 of the
  specification), one with a \<open>null\<close> entry, and a request the API rejects (the mock of
  the test suite).
\<close>

definition usdceToken :: Token where
  "usdceToken = \<lparr>address = ''0x29eE6138DD4C9815f46D34a4A1ed48F46758A402'', symbol = ''USDC.e'',
     name = ''Bridged USDC (Stargate)'', decimals = 6, logoURI = None, chainId = Some 3637\<rparr>"

definition btcThreshold :: ThresholdItem where
  "btcThreshold = \<lparr>token = Some ''0xeeeeeeeeeeeeeeeeeeeeeeeeeeeeeeeeeeeeeeee'', minimumAmount = ''1000000''\<rparr>"

definition usdceThreshold :: ThresholdItem where
  "usdceThreshold = \<lparr>token = Some ''0x29ee6138dd4c9815f46d34a4a1ed48f46758a402'', minimumAmount = ''500.5''\<rparr>"

definition respondsWith :: "int \<Rightarrow> ThresholdItem option list \<Rightarrow> io" where
  "respondsWith now items =
     \<lparr>dateNow = now,
      assetMinimum = Resolved \<lparr>resp_success = True, resp_error = None, resp_data = Some items\<rparr>\<rparr>"

definition apiErrorIo :: io where
  "apiErrorIo = \<lparr>dateNow = 0, assetMinimum = Rejected (Error ''API Error'')\<rparr>"

definition apiUrl :: string where
  "apiUrl = ''https://api-public.bitzy.app''"

text \<open>
  States and a payload of the cache examples: nothing cached and no call suspended; the
  same with one call started at time 0 and suspended; a successful payload with the
  native token's record.
\<close>

definition idle :: system where
  "idle = \<lparr>sysWorld = emptyWorld, inFlight = []\<rparr>"

definition fetchingSince0 :: system where
  "fetchingSince0 = snd (step (GetStart 0 apiUrl None) idle)"

definition btcPayload :: AssetMinimumResponse where
  "btcPayload = \<lparr>resp_success = True, resp_error = None, resp_data = Some [Some btcThreshold]\<rparr>"

text \<open>
  Requests of the examples: a request is an amount, two tokens and a chain, with no part
  count given and online mode off, as in the batch test of \<open>FetchSwapRoute.test.ts\<close>
  (whose first request is on the unsupported chain 9999). The quoting service of the
  examples answers every part count with one route and the weight 100.
\<close>

definition swapRequest :: "string \<Rightarrow> Token \<Rightarrow> Token \<Rightarrow> int \<Rightarrow> SwapRequest" where
  "swapRequest amount s d chain =
     \<lparr>reqAmountIn = amount, reqSrcToken = Some s, reqDstToken = Some d, reqChainId = chain,
      reqPartCount = None, reqForcePartCount = None, reqOnlinePartCount = None\<rparr>"

definition exampleSegment :: RouteSegment where
  "exampleSegment =
     \<lparr>router = ''0xA5E0AE4e5103dc71cA290AA3654830442357A489'',
      pool = ''0x9c157b5cb0205d184bd0108eebd64aaa363637fb'',
      fromToken = ''0x0d2437f93fed6ea64ef01ccde385fb1263910c56'',
      toToken = ''0x29ee6138dd4c9815f46d34a4a1ed48f46758a402'',
      fromMarker = ''0x0000000000000000000000000000000000000000'',
      toMarker = ''0x0000000000000000000000000000000000000001'',
      partSizeFixedPoint = ''100000000'', amountAfterFeeFixedPoint = ''9970'', sourceType = 1\<rparr>"

definition exampleQuote :: "int \<Rightarrow> QuoteResponse outcome" where
  "exampleQuote parts =
     Resolved \<lparr>quotedRoutes = [[exampleSegment]], quotedDistribution = [100],
               quotedAmountOutPerRoute = [96093446470], quotedAmountOutTotal = 96093446470\<rparr>"

definition batchItem :: "SwapRequest \<Rightarrow> BatchItem" where
  "batchItem req = \<lparr>options = req, config = None, itemIo = apiErrorIo, itemQuote = exampleQuote\<rparr>"

section \<open>Evaluation of the lowercase map\<close>

declare natDigits.simps [simp del]

lemma toLowerCase_char_hex:
  "toLowerCase_char CHR ''0'' = CHR ''0''"
  "toLowerCase_char CHR ''1'' = CHR ''1''"
  "toLowerCase_char CHR ''2'' = CHR ''2''"
  "toLowerCase_char CHR ''3'' = CHR ''3''"
  "toLowerCase_char CHR ''4'' = CHR ''4''"
  "toLowerCase_char CHR ''5'' = CHR ''5''"
  "toLowerCase_char CHR ''6'' = CHR ''6''"
  "toLowerCase_char CHR ''7'' = CHR ''7''"
  "toLowerCase_char CHR ''8'' = CHR ''8''"
  "toLowerCase_char CHR ''9'' = CHR ''9''"
  "toLowerCase_char CHR ''a'' = CHR ''a''"
  "toLowerCase_char CHR ''b'' = CHR ''b''"
  "toLowerCase_char CHR ''c'' = CHR ''c''"
  "toLowerCase_char CHR ''d'' = CHR ''d''"
  "toLowerCase_char CHR ''e'' = CHR ''e''"
  "toLowerCase_char CHR ''f'' = CHR ''f''"
  "toLowerCase_char CHR ''A'' = CHR ''a''"
  "toLowerCase_char CHR ''B'' = CHR ''b''"
  "toLowerCase_char CHR ''C'' = CHR ''c''"
  "toLowerCase_char CHR ''D'' = CHR ''d''"
  "toLowerCase_char CHR ''E'' = CHR ''e''"
  "toLowerCase_char CHR ''F'' = CHR ''f''"
  "toLowerCase_char CHR ''x'' = CHR ''x''"
  "toLowerCase_char CHR ''X'' = CHR ''x''"
  by (simp_all add: toLowerCase_char_def upperToLower_def)

lemmas token_defs = mockToken_def highValueToken_def usdcToken_def upperCaseToken_def
  lowerCaseToken_def nativeToken_def usdceToken_def

lemmas example_defs = btcThreshold_def usdceThreshold_def respondsWith_def apiErrorIo_def
  apiUrl_def emptyWorld_def

lemmas eval_lower = toLowerCase_def toLowerCase_char_hex

section \<open>Properties of the offline decision\<close>

lemma toLowerCase_Nil_iff: "toLowerCase s = [] \<longleftrightarrow> s = []"
  by (simp add: toLowerCase_def)

lemma HIGH_VALUE_TOKENS_nonempty_addresses:
  "HIGH_VALUE_TOKENS chain = Some addrs \<Longrightarrow> [] \<notin> set addrs"
  by (auto simp: HIGH_VALUE_TOKENS_def split: if_splits)

lemma isHighValueToken_registered: "isHighValueToken tok chain = registered tok chain"
proof (cases tok)
  case None
  then show ?thesis by (simp add: isHighValueToken_def registered_def)
next
  case (Some t)
  show ?thesis
  proof (cases "HIGH_VALUE_TOKENS chain")
    case None
    with Some show ?thesis
      by (simp add: isHighValueToken_def registered_def highValueRegistry_def)
  next
    case (Some addrs)
    have ne: "[] \<notin> set addrs"
      using Some by (rule HIGH_VALUE_TOKENS_nonempty_addresses)
    have "address t = [] \<Longrightarrow> toLowerCase (address t) \<notin> toLowerCase ` set addrs"
      using ne by (auto simp: toLowerCase_def)
    moreover have "list_ex (\<lambda>addr. toLowerCase addr = toLowerCase (address t)) addrs
        \<longleftrightarrow> toLowerCase (address t) \<in> toLowerCase ` set addrs"
      unfolding list_ex_iff image_iff by metis
    ultimately show ?thesis
      using Some \<open>tok = Some t\<close>
      by (simp add: isHighValueToken_def registered_def highValueRegistry_def)
  qed
qed

text \<open>
  C1. The offline decision returns the caller's \<open>defaultPartCount\<close> (5 when omitted) when
  the lowercase addresses of both tokens are in the registry of the chain, and 1 in every
  other case; for a chain without registry entry it returns 1 whatever the tokens are.
  When the default differs from 1, the default is returned only in the first case.
\<close>

theorem getPartCountOffline_decision:
  "getPartCountOffline srcToken dstToken chain defaultPartCount =
     (if registered srcToken chain \<and> registered dstToken chain
      then withDefault 5 defaultPartCount else 1)
   \<and> (HIGH_VALUE_TOKENS chain = None \<longrightarrow>
        getPartCountOffline srcToken dstToken chain defaultPartCount = 1)
   \<and> (withDefault 5 defaultPartCount \<noteq> 1 \<longrightarrow>
        (getPartCountOffline srcToken dstToken chain defaultPartCount = withDefault 5 defaultPartCount
           \<longleftrightarrow> registered srcToken chain \<and> registered dstToken chain))"
proof -
  have main: "getPartCountOffline srcToken dstToken chain defaultPartCount =
     (if registered srcToken chain \<and> registered dstToken chain
      then withDefault 5 defaultPartCount else 1)"
    by (simp add: getPartCountOffline_def isHighValueToken_registered)
  have unknown: "HIGH_VALUE_TOKENS chain = None \<Longrightarrow> \<not> registered srcToken chain"
    by (simp add: registered_def highValueRegistry_def split: option.splits)
  show ?thesis
    using main unknown by auto
qed

lemma offline_examples:
  "registered (Some highValueToken) 3637"
  "registered (Some usdcToken) 3637"
  "registered (Some upperCaseToken) 3637"
  "\<not> registered (Some mockToken) 3637"
  "HIGH_VALUE_TOKENS 9999 = None"
  by (simp_all add: registered_def highValueRegistry_def HIGH_VALUE_TOKENS_def eval_lower token_defs)

theorem getPartCountOffline_decision_witness:
  "HIGH_VALUE_TOKENS 9999 = None
   \<and> getPartCountOffline (Some highValueToken) (Some usdcToken) 9999 (Some 10) = 1
   \<and> withDefault 5 (Some 10) \<noteq> 1
   \<and> getPartCountOffline (Some upperCaseToken) (Some usdcToken) 3637 (Some 10) = 10
   \<and> getPartCountOffline (Some highValueToken) (Some mockToken) 3637 (Some 10) = 1
   \<and> getPartCountOffline (Some highValueToken) (Some usdcToken) 3637 None = 5"
  using getPartCountOffline_decision [of "Some highValueToken" "Some usdcToken" 9999 "Some 10"]
    getPartCountOffline_decision [of "Some upperCaseToken" "Some usdcToken" 3637 "Some 10"]
    getPartCountOffline_decision [of "Some highValueToken" "Some mockToken" 3637 "Some 10"]
    getPartCountOffline_decision [of "Some highValueToken" "Some usdcToken" 3637 None]
    offline_examples
  by (simp add: withDefault_def)

section \<open>Properties of the threshold cache\<close>

text \<open>A call that is not interrupted is its first half followed by its second.\<close>

lemma getMinimumAmounts_two_halves:
  "getMinimumAmounts env url key w =
     (case getMinimumAmounts_start (dateNow env) url key w of
        (Done records, w1) \<Rightarrow> (Inr records, w1)
      | (Awaiting now, w1) \<Rightarrow> getMinimumAmounts_resume now (assetMinimum env) w1)"
  by (simp add: getMinimumAmounts_def fetchFreshMinimumAmounts_def getMinimumAmounts_start_def
      getMinimumAmounts_resume_def Let_def consoleLog_def split: option.splits outcome.splits)

text \<open>A start with a live entry returns its records and issues nothing.\<close>

lemma step_GetStart_live:
  assumes "minimumAmountsCache (sysWorld s) = Some c" and "now < expiresAt c"
  shows "fst (step (GetStart now url key) s) = Returned (data c)"
    and "minimumAmountsCache (sysWorld (snd (step (GetStart now url key) s))) = Some c"
    and "assetMinimumCalls (sysWorld (snd (step (GetStart now url key) s))) =
           assetMinimumCalls (sysWorld s)"
  using assms by (simp_all add: getMinimumAmounts_start_def Let_def consoleLog_def)

text \<open>A start without live entry suspends with its clock reading and issues the request.\<close>

lemma step_GetStart_miss:
  assumes "minimumAmountsCache (sysWorld s) = None
           \<or> (\<exists>c. minimumAmountsCache (sysWorld s) = Some c \<and> \<not> now < expiresAt c)"
  shows "fst (step (GetStart now url key) s) = Suspended"
    and "minimumAmountsCache (sysWorld (snd (step (GetStart now url key) s))) =
           minimumAmountsCache (sysWorld s)"
    and "assetMinimumCalls (sysWorld (snd (step (GetStart now url key) s))) =
           assetMinimumCalls (sysWorld s) @ [(url, key)]"
    and "inFlight (snd (step (GetStart now url key) s)) = inFlight s @ [now]"
  using assms by (auto simp: getMinimumAmounts_start_def Let_def consoleLog_def)

text \<open>A settling with a successful payload installs the entry with the call's own clock reading.\<close>

lemma step_GetSettle_success:
  assumes "i < length (inFlight s)" and "resp_success response"
  shows "fst (step (GetSettle i (Resolved response)) s) = Returned (recordsOf response)"
    and "minimumAmountsCache (sysWorld (snd (step (GetSettle i (Resolved response)) s))) =
           Some \<lparr>data = recordsOf response, timestamp = inFlight s ! i,
                 expiresAt = inFlight s ! i + CACHE_DURATION\<rparr>"
    and "assetMinimumCalls (sysWorld (snd (step (GetSettle i (Resolved response)) s))) =
           assetMinimumCalls (sysWorld s)"
  using assms by (simp_all add: getMinimumAmounts_resume_def recordsOf_def Let_def)

lemma step_keepsEntry:
  assumes "keepsEntry ev"
  shows "minimumAmountsCache (sysWorld (snd (step ev s))) = minimumAmountsCache (sysWorld s)"
proof (cases ev)
  case (GetStart now url key)
  then show ?thesis
    by (simp add: getMinimumAmounts_start_def Let_def consoleLog_def split: option.splits)
next
  case (GetSettle i settled)
  with assms show ?thesis
    by (cases settled) (simp_all add: getMinimumAmounts_resume_def)
next
  case ClearCache
  with assms show ?thesis by simp
qed

lemma step_calls:
  assumes "keepsEntry ev"
  shows "assetMinimumCalls (sysWorld (snd (step ev s))) =
           assetMinimumCalls (sysWorld s) @ requestsOf (minimumAmountsCache (sysWorld s)) [ev]"
proof (cases ev)
  case (GetStart now url key)
  then show ?thesis
    by (simp add: getMinimumAmounts_start_def Let_def consoleLog_def split: option.splits)
next
  case (GetSettle i settled)
  with assms show ?thesis
    by (cases settled) (simp_all add: getMinimumAmounts_resume_def)
next
  case ClearCache
  with assms show ?thesis by simp
qed

lemma requestsOf_Cons: "requestsOf entry (ev # evs) = requestsOf entry [ev] @ requestsOf entry evs"
  by (cases ev) (simp_all split: option.splits)

text \<open>
  While only events that keep the entry happen, the entry stays, every start is answered
  by it while it is live and suspends with a request otherwise, and no other request is
  issued.
\<close>

lemma run_keepsEntry:
  assumes "list_all keepsEntry evs"
  shows "minimumAmountsCache (sysWorld (snd (run evs s))) = minimumAmountsCache (sysWorld s)
    \<and> assetMinimumCalls (sysWorld (snd (run evs s))) =
        assetMinimumCalls (sysWorld s) @ requestsOf (minimumAmountsCache (sysWorld s)) evs
    \<and> length (fst (run evs s)) = length evs
    \<and> (\<forall>k < length evs. \<forall>now url key. evs ! k = GetStart now url key \<longrightarrow>
          fst (run evs s) ! k =
            (case minimumAmountsCache (sysWorld s) of
               None \<Rightarrow> Suspended
             | Some c \<Rightarrow> if now < expiresAt c then Returned (data c) else Suspended))"
  using assms
proof (induction evs arbitrary: s)
  case Nil
  then show ?case by simp
next
  case (Cons ev evs)
  let ?s1 = "snd (step ev s)"
  from Cons.prems have ev: "keepsEntry ev" and rest: "list_all keepsEntry evs"
    by simp_all
  have cache1: "minimumAmountsCache (sysWorld ?s1) = minimumAmountsCache (sysWorld s)"
    using ev by (rule step_keepsEntry)
  have calls1: "assetMinimumCalls (sysWorld ?s1) =
      assetMinimumCalls (sysWorld s) @ requestsOf (minimumAmountsCache (sysWorld s)) [ev]"
    using ev by (rule step_calls)
  note ih = Cons.IH [OF rest, of ?s1]
  have run: "run (ev # evs) s = (fst (step ev s) # fst (run evs ?s1), snd (run evs ?s1))"
    by (simp add: split_beta)
  have first: "fst (step ev s) =
      (case minimumAmountsCache (sysWorld s) of
         None \<Rightarrow> Suspended
       | Some c \<Rightarrow> if now < expiresAt c then Returned (data c) else Suspended)"
    if "ev = GetStart now url key" for now url key
    using that
    by (simp add: getMinimumAmounts_start_def Let_def split: option.splits)
  have nth: "fst (run (ev # evs) s) ! k =
      (case minimumAmountsCache (sysWorld s) of
         None \<Rightarrow> Suspended
       | Some c \<Rightarrow> if now < expiresAt c then Returned (data c) else Suspended)"
    if "k < length (ev # evs)" and "(ev # evs) ! k = GetStart now url key" for k now url key
  proof (cases k)
    case 0
    with that have "ev = GetStart now url key" by simp
    from first [OF this] 0 show ?thesis by (simp only: run fst_conv nth_Cons_0)
  next
    case (Suc j)
    with that have j: "j < length evs" and at: "evs ! j = GetStart now url key"
      by simp_all
    from ih j at have "fst (run evs ?s1) ! j =
        (case minimumAmountsCache (sysWorld ?s1) of
           None \<Rightarrow> Suspended
         | Some c \<Rightarrow> if now < expiresAt c then Returned (data c) else Suspended)"
      by blast
    with Suc cache1 show ?thesis by (simp only: run fst_conv nth_Cons_Suc)
  qed
  have calls: "assetMinimumCalls (sysWorld (snd (run (ev # evs) s))) =
      assetMinimumCalls (sysWorld s) @ requestsOf (minimumAmountsCache (sysWorld s)) (ev # evs)"
    using ih calls1 cache1 requestsOf_Cons [of "minimumAmountsCache (sysWorld s)" ev evs]
    by (simp only: run snd_conv append_assoc)
  have cache: "minimumAmountsCache (sysWorld (snd (run (ev # evs) s))) =
      minimumAmountsCache (sysWorld s)"
    using ih cache1 by (simp only: run snd_conv)
  have len: "length (fst (run (ev # evs) s)) = length (ev # evs)"
    using ih by (simp only: run fst_conv list.size)
  show ?case
    using cache calls len nth by blast
qed

lemmas cache_eval = getMinimumAmounts_start_def getMinimumAmounts_resume_def consoleLog_def
  clearMinimumAmountsCache_def CACHE_DURATION_def emptyWorld_def idle_def fetchingSince0_def
  btcPayload_def recordsOf_def

text \<open>
  Calls that overlap: a call at time 10 that starts while the call of time 0 is suspended
  finds no entry and issues a second request.
\<close>

lemma overlapping_gets_fetch_twice:
  "fst (run [GetStart 0 apiUrl None, GetStart 10 apiUrl None,
             GetSettle 0 (Resolved btcPayload), GetSettle 0 (Resolved btcPayload)] idle) =
     [Suspended, Suspended, Returned [Some btcThreshold], Returned [Some btcThreshold]]
   \<and> assetMinimumCalls (sysWorld (snd (run [GetStart 0 apiUrl None, GetStart 10 apiUrl None,
             GetSettle 0 (Resolved btcPayload), GetSettle 0 (Resolved btcPayload)] idle))) =
     [(apiUrl, None), (apiUrl, None)]"
  by (simp add: cache_eval)

text \<open>
  C7, as stated, fails, in both halves. A call that succeeds because it is answered from
  the cache does not start a new window: after the fetch of the call of time 0, the call
  at time 200000 succeeds from the cache, and the call at time 400000, before 200000 plus
  5 minutes, finds the entry expired (at 300000) and issues a second request. And the
  call after a clear need not fetch: when the call of time 0 is suspended across the
  clear and its request settles afterwards, it installs the entry, and the call at time
  10, the next after the clear, is answered from the cache; one request in all.
\<close>

theorem cached_get_does_not_extend_window:
  "fst (run [GetStart 0 apiUrl None, GetSettle 0 (Resolved btcPayload),
             GetStart 200000 apiUrl None, GetStart 400000 apiUrl None] idle) =
     [Suspended, Returned [Some btcThreshold], Returned [Some btcThreshold], Suspended]
   \<and> (400000 :: int) < 200000 + CACHE_DURATION
   \<and> assetMinimumCalls (sysWorld (snd (run [GetStart 0 apiUrl None, GetSettle 0 (Resolved btcPayload),
             GetStart 200000 apiUrl None, GetStart 400000 apiUrl None] idle))) =
     [(apiUrl, None), (apiUrl, None)]
   \<and> fst (run [GetStart 0 apiUrl None, ClearCache, GetSettle 0 (Resolved btcPayload),
             GetStart 10 apiUrl None] idle) =
     [Suspended, Cleared, Returned [Some btcThreshold], Returned [Some btcThreshold]]
   \<and> assetMinimumCalls (sysWorld (snd (run [GetStart 0 apiUrl None, ClearCache,
             GetSettle 0 (Resolved btcPayload), GetStart 10 apiUrl None] idle))) =
     [(apiUrl, None)]"
  by (simp add: cache_eval)

text \<open>
  C7, amended. Let a call of \<open>getMinimumAmounts\<close> that issued the request and started at
  time \<open>t\<close> (the suspended call at index \<open>i\<close>) succeed: it returns the fetched records.
  Then, as long as the entry it installed is neither cleared nor replaced (the events
  that follow are starts of calls and settlings that fail), every call that starts at a
  time strictly before \<open>t\<close> plus 5 minutes returns those records at once, and every call
  that starts at \<open>t\<close> plus 5 minutes or later suspends and issues a request, however many
  calls were answered from the cache before it; the requests issued are exactly those of
  the late starts. After \<open>clearMinimumAmountsCache\<close>, under the same condition on the
  events that follow, every call that starts suspends and issues a request, whatever its
  time and the state before the clear.
\<close>

theorem threshold_cache_window:
  "list_all keepsEntry evs \<Longrightarrow>
   (i < length (inFlight s) \<and> resp_success response \<longrightarrow>
      fst (step (GetSettle i (Resolved response)) s) = Returned (recordsOf response)
      \<and> (\<forall>k < length evs. \<forall>now url key. evs ! k = GetStart now url key \<longrightarrow>
            fst (run evs (snd (step (GetSettle i (Resolved response)) s))) ! k =
              (if now < inFlight s ! i + CACHE_DURATION then Returned (recordsOf response)
               else Suspended))
      \<and> assetMinimumCalls (sysWorld (snd (run evs (snd (step (GetSettle i (Resolved response)) s))))) =
          assetMinimumCalls (sysWorld s)
          @ requestsOf (Some \<lparr>data = recordsOf response, timestamp = inFlight s ! i,
                               expiresAt = inFlight s ! i + CACHE_DURATION\<rparr>) evs)
   \<and> (\<forall>k < length evs. \<forall>now url key. evs ! k = GetStart now url key \<longrightarrow>
         fst (run evs (snd (step ClearCache s))) ! k = Suspended)
   \<and> assetMinimumCalls (sysWorld (snd (run evs (snd (step ClearCache s))))) =
       assetMinimumCalls (sysWorld s) @ requestsOf None evs"
proof (intro conjI impI)
  assume quiet: "list_all keepsEntry evs"
  {
    assume a: "i < length (inFlight s) \<and> resp_success response"
    let ?s1 = "snd (step (GetSettle i (Resolved response)) s)"
    let ?c = "\<lparr>data = recordsOf response, timestamp = inFlight s ! i,
               expiresAt = inFlight s ! i + CACHE_DURATION\<rparr>"
    from a have i: "i < length (inFlight s)" and ok: "resp_success response"
      by simp_all
    note settled = step_GetSettle_success [OF i ok]
    show "fst (step (GetSettle i (Resolved response)) s) = Returned (recordsOf response)"
      by (rule settled(1))
    have cache: "minimumAmountsCache (sysWorld ?s1) = Some ?c"
      by (rule settled(2))
    note after = run_keepsEntry [OF quiet, of ?s1]
    show "\<forall>k < length evs. \<forall>now url key. evs ! k = GetStart now url key \<longrightarrow>
            fst (run evs ?s1) ! k =
              (if now < inFlight s ! i + CACHE_DURATION then Returned (recordsOf response)
               else Suspended)"
      using after cache by simp
    show "assetMinimumCalls (sysWorld (snd (run evs ?s1))) =
          assetMinimumCalls (sysWorld s) @ requestsOf (Some ?c) evs"
      using after cache settled(3) by simp
  }
  let ?s2 = "snd (step ClearCache s)"
  have cleared: "minimumAmountsCache (sysWorld ?s2) = None"
    and calls: "assetMinimumCalls (sysWorld ?s2) = assetMinimumCalls (sysWorld s)"
    by (simp_all add: clearMinimumAmountsCache_def consoleLog_def)
  note after = run_keepsEntry [OF quiet, of ?s2]
  show "\<forall>k < length evs. \<forall>now url key. evs ! k = GetStart now url key \<longrightarrow>
         fst (run evs ?s2) ! k = Suspended"
    using after cleared by simp
  show "assetMinimumCalls (sysWorld (snd (run evs ?s2))) =
       assetMinimumCalls (sysWorld s) @ requestsOf None evs"
    using after cleared calls by simp
qed

text \<open>
  The call of time 0 succeeds; calls at 200000 and 299999 (the second with another base
  URL) are answered from the cache, a settling without suspended call in between changes
  nothing, and the calls at 300000 and 400000 each issue a request. After a clear, the
  calls at 1 and 2 each issue a request.
\<close>

theorem threshold_cache_window_witness:
  "list_all keepsEntry
     [GetStart 200000 apiUrl None, GetSettle 3 (Rejected (Error ''API Error'')),
      GetStart 299999 ''https://other.example'' (Some ''k''), GetStart 300000 apiUrl None,
      GetStart 400000 apiUrl None]
   \<and> inFlight fetchingSince0 = [0]
   \<and> fst (step (GetSettle 0 (Resolved btcPayload)) fetchingSince0) = Returned [Some btcThreshold]
   \<and> fst (run [GetStart 200000 apiUrl None, GetSettle 3 (Rejected (Error ''API Error'')),
               GetStart 299999 ''https://other.example'' (Some ''k''), GetStart 300000 apiUrl None,
               GetStart 400000 apiUrl None]
            (snd (step (GetSettle 0 (Resolved btcPayload)) fetchingSince0))) =
       [Returned [Some btcThreshold], Ignored, Returned [Some btcThreshold], Suspended, Suspended]
   \<and> assetMinimumCalls (sysWorld (snd (run
              [GetStart 200000 apiUrl None, GetSettle 3 (Rejected (Error ''API Error'')),
               GetStart 299999 ''https://other.example'' (Some ''k''), GetStart 300000 apiUrl None,
               GetStart 400000 apiUrl None]
            (snd (step (GetSettle 0 (Resolved btcPayload)) fetchingSince0))))) =
       [(apiUrl, None), (apiUrl, None), (apiUrl, None)]
   \<and> assetMinimumCalls (sysWorld (snd (run [GetStart 1 apiUrl None, GetStart 2 apiUrl None]
            (snd (step ClearCache (snd (step (GetSettle 0 (Resolved btcPayload)) fetchingSince0))))))) =
       [(apiUrl, None), (apiUrl, None), (apiUrl, None)]"
proof -
  have quiet: "list_all keepsEntry
     [GetStart 200000 apiUrl None, GetSettle 3 (Rejected (Error ''API Error'')),
      GetStart 299999 ''https://other.example'' (Some ''k''), GetStart 300000 apiUrl None,
      GetStart 400000 apiUrl None]"
    by simp
  have quiet': "list_all keepsEntry [GetStart 1 apiUrl None, GetStart 2 apiUrl None]"
    by simp
  note window = threshold_cache_window [OF quiet, of 0 fetchingSince0 btcPayload]
  note clear = threshold_cache_window [OF quiet', of 0
      "snd (step (GetSettle 0 (Resolved btcPayload)) fetchingSince0)" btcPayload]
  show ?thesis
    using quiet window clear by (simp add: cache_eval)
qed

section \<open>Properties of the online decision\<close>

lemma withDefault_Some: "withDefault d (Some (withDefault d x)) = withDefault d x"
  by (simp add: withDefault_def)

text \<open>What \<open>getMinimumAmounts\<close> returns does not depend on the console.\<close>

lemma getMinimumAmounts_consoleLog:
  "fst (getMinimumAmounts env url key (consoleLog m w)) = fst (getMinimumAmounts env url key w)"
  by (simp add: getMinimumAmounts_def fetchFreshMinimumAmounts_def consoleLog_def Let_def
      split: option.splits outcome.splits)

lemma getMinimumAmounts_after_log:
  obtains w1 where
    "getMinimumAmounts env url key (consoleLog m w) = (fst (getMinimumAmounts env url key w), w1)"
  by (metis getMinimumAmounts_consoleLog prod.collapse)

lemma getPartCountOnline_try_cases:
  "(\<exists>e w1. getPartCountOnline_try bn env s d a chain url key fb w = (Inl e, w1))
   \<or> (\<exists>w1. getPartCountOnline_try bn env s d a chain url key fb w = (Inr 5, w1))
   \<or> (\<exists>w1. getPartCountOnline_try bn env s d a chain url key fb w =
         (Inr (getPartCountOffline (Some s) (Some d) chain (Some fb)), w1))"
  by (simp add: getPartCountOnline_try_def Let_def split: prod.splits sum.splits)

lemma getPartCountOnline_returns:
  "\<exists>n w'. getPartCountOnline bn env s d a chain url key fb w = (Inr n, w')"
  using getPartCountOnline_try_cases [of bn env s d a chain url key "withDefault 5 fb" w]
  by (auto simp: getPartCountOnline_def)

lemma getPartCountOnline_try_throws:
  assumes "fst (getPartCountOnline_try bn env s d a chain url key fb w) = Inl e"
  shows "fst (getPartCountOnline bn env s d a chain url key (Some fb) w) =
           Inr (getPartCountOffline (Some s) (Some d) chain (Some fb))"
  using assms by (cases "getPartCountOnline_try bn env s d a chain url key fb w")
    (simp add: getPartCountOnline_def withDefault_def)

lemma fetch_failure_throws:
  assumes "fst (getMinimumAmounts env url key w) = Inl e"
  shows "fst (getPartCountOnline_try bn env s d a chain url key fb w) = Inl e"
proof -
  obtain w1 where
    "getMinimumAmounts env url key (consoleLog ''Fetching online partCount data...'' w) = (Inl e, w1)"
    using getMinimumAmounts_after_log [of env url key _ w] assms by metis
  then show ?thesis
    by (simp add: getPartCountOnline_try_def)
qed

lemma last_consoleLog: "last (console (consoleLog m w)) = Log m"
  by (simp add: consoleLog_def)

lemma msgMeets_distinct:
  "msgBelow \<noteq> msgMeets" "''Falling back to offline partCount logic'' \<noteq> msgMeets"
  by (simp_all add: msgBelow_def msgMeets_def)

text \<open>
  What the lookup finds: the first element the callback accepts, provided the callback
  rejects every element before it without throwing; and nothing exactly when the callback
  rejects every element.
\<close>

lemma find_js_first:
  "find_js p xs = Inr (Some x) \<longleftrightarrow>
     (\<exists>before after. xs = before @ x # after \<and> p x = Inr True
        \<and> list_all (\<lambda>y. p y = Inr False) before)"
proof (induction xs)
  case Nil
  then show ?case by simp
next
  case (Cons y ys)
  show ?case
  proof (cases "p y")
    case (Inl e)
    have "\<not> (\<exists>before after. y # ys = before @ x # after \<and> p x = Inr True
        \<and> list_all (\<lambda>y. p y = Inr False) before)"
    proof
      assume "\<exists>before after. y # ys = before @ x # after \<and> p x = Inr True
        \<and> list_all (\<lambda>y. p y = Inr False) before"
      then obtain before after where split: "y # ys = before @ x # after" "p x = Inr True"
        "list_all (\<lambda>y. p y = Inr False) before" by blast
      then show False using Inl by (cases before) auto
    qed
    with Inl show ?thesis by simp
  next
    case (Inr b)
    show ?thesis
    proof (cases b)
      case True
      have "(\<exists>before after. y # ys = before @ x # after \<and> p x = Inr True
        \<and> list_all (\<lambda>y. p y = Inr False) before) \<longleftrightarrow> x = y"
      proof
        assume "\<exists>before after. y # ys = before @ x # after \<and> p x = Inr True
          \<and> list_all (\<lambda>y. p y = Inr False) before"
        then obtain before after where split: "y # ys = before @ x # after" "p x = Inr True"
          "list_all (\<lambda>y. p y = Inr False) before" by blast
        then show "x = y" using Inr True by (cases before) auto
      next
        assume "x = y"
        then have "y # ys = [] @ x # ys \<and> p x = Inr True \<and> list_all (\<lambda>y. p y = Inr False) []"
          using Inr True by simp
        then show "\<exists>before after. y # ys = before @ x # after \<and> p x = Inr True
          \<and> list_all (\<lambda>y. p y = Inr False) before" by blast
      qed
      with Inr True show ?thesis by auto
    next
      case False
      have "(\<exists>before after. y # ys = before @ x # after \<and> p x = Inr True
        \<and> list_all (\<lambda>y. p y = Inr False) before) \<longleftrightarrow>
        (\<exists>before after. ys = before @ x # after \<and> p x = Inr True
        \<and> list_all (\<lambda>y. p y = Inr False) before)"
      proof
        assume "\<exists>before after. y # ys = before @ x # after \<and> p x = Inr True
          \<and> list_all (\<lambda>y. p y = Inr False) before"
        then obtain before after where split: "y # ys = before @ x # after" "p x = Inr True"
          "list_all (\<lambda>y. p y = Inr False) before" by blast
        show "\<exists>before after. ys = before @ x # after \<and> p x = Inr True
          \<and> list_all (\<lambda>y. p y = Inr False) before"
        proof (cases before)
          case Nil
          with split Inr False show ?thesis by simp
        next
          case (Cons b bs)
          with split have "ys = bs @ x # after \<and> p x = Inr True \<and> list_all (\<lambda>y. p y = Inr False) bs"
            by simp
          then show ?thesis by blast
        qed
      next
        assume "\<exists>before after. ys = before @ x # after \<and> p x = Inr True
          \<and> list_all (\<lambda>y. p y = Inr False) before"
        then obtain before after where split: "ys = before @ x # after" "p x = Inr True"
          "list_all (\<lambda>y. p y = Inr False) before" by blast
        then have "y # ys = (y # before) @ x # after \<and> p x = Inr True
          \<and> list_all (\<lambda>y. p y = Inr False) (y # before)"
          using Inr False by simp
        then show "\<exists>before after. y # ys = before @ x # after \<and> p x = Inr True
          \<and> list_all (\<lambda>y. p y = Inr False) before" by blast
      qed
      with Cons.IH Inr False show ?thesis by simp
    qed
  qed
qed

lemma find_js_none:
  "find_js p xs = Inr None \<longleftrightarrow> list_all (\<lambda>y. p y = Inr False) xs"
  by (induction xs) (auto split: sum.splits)

lemmas online_eval = getPartCountOnline_def getPartCountOnline_try_def getMinimumAmounts_def
  fetchFreshMinimumAmounts_def consoleLog_def consoleWarn_def orElse_def tokenMatches_def
  meetsMinimum_def decimalBigNumber_def parseUnsigned_def digitValue_def
  withDefault_def getPartCountOffline_def isHighValueToken_registered
  registered_def highValueRegistry_def HIGH_VALUE_TOKENS_def eval_lower token_defs example_defs

text \<open>
  C2. \<open>getPartCountOnline\<close> returns 5 when the thresholds are obtained, the lookup finds
  a record for the source token and one for the destination token (the first record whose
  lowercase \<open>token\<close> is the token's lowercase address) and \<open>amountIn >= minimumAmount\<close>
  holds for both; in every other case (a threshold not met, a record missing, the
  thresholds not obtained, an exception in the lookup) it returns the offline decision
  with \<open>fallbackPartCount\<close> (5 when omitted) as the default of high-value pairs.
\<close>

theorem getPartCountOnline_decision:
  "fst (getPartCountOnline bn env s d a chain url key fb w) =
     Inr (if \<exists>records srcRec dstRec.
               fst (getMinimumAmounts env url key w) = Inr records
               \<and> find_js (tokenMatches s) records = Inr (Some (Some srcRec))
               \<and> find_js (tokenMatches d) records = Inr (Some (Some dstRec))
               \<and> gte (bn a) (bn (minimumAmount srcRec))
               \<and> gte (bn a) (bn (minimumAmount dstRec))
          then 5
          else getPartCountOffline (Some s) (Some d) chain (Some (withDefault 5 fb)))"
proof -
  let ?w0 = "consoleLog ''Fetching online partCount data...'' w"
  define r where "r = fst (getMinimumAmounts env url key w)"
  obtain w1 where g: "getMinimumAmounts env url key ?w0 = (r, w1)"
    unfolding r_def by (rule getMinimumAmounts_after_log)
  have r: "fst (getMinimumAmounts env url key w) = r"
    by (simp add: r_def)
  show ?thesis
  proof (cases r)
    case (Inl e)
    with g r show ?thesis
      by (simp add: getPartCountOnline_def getPartCountOnline_try_def)
  next
    case (Inr records)
    show ?thesis
    proof (cases "find_js (tokenMatches s) records")
      case (Inl e)
      with g r Inr show ?thesis
        by (simp add: getPartCountOnline_def getPartCountOnline_try_def)
    next
      case srcFound: (Inr srcTokenMin)
      show ?thesis
      proof (cases "find_js (tokenMatches d) records")
        case (Inl e)
        with g r Inr srcFound show ?thesis
          by (simp add: getPartCountOnline_def getPartCountOnline_try_def)
      next
        case dstFound: (Inr dstTokenMin)
        have cond: "(\<exists>records srcRec dstRec.
               fst (getMinimumAmounts env url key w) = Inr records
               \<and> find_js (tokenMatches s) records = Inr (Some (Some srcRec))
               \<and> find_js (tokenMatches d) records = Inr (Some (Some dstRec))
               \<and> gte (bn a) (bn (minimumAmount srcRec))
               \<and> gte (bn a) (bn (minimumAmount dstRec)))
          \<longleftrightarrow> meetsMinimum bn (bn a) srcTokenMin \<and> meetsMinimum bn (bn a) dstTokenMin"
          using r Inr srcFound dstFound by (auto simp: meetsMinimum_def split: option.splits)
        have eval: "fst (getPartCountOnline bn env s d a chain url key fb w) =
            Inr (if meetsMinimum bn (bn a) srcTokenMin \<and> meetsMinimum bn (bn a) dstTokenMin
                 then 5
                 else getPartCountOffline (Some s) (Some d) chain (Some (withDefault 5 fb)))"
          using g Inr srcFound dstFound
          by (simp add: getPartCountOnline_def getPartCountOnline_try_def Let_def)
        show ?thesis
          by (simp only: eval cond)
      qed
    qed
  qed
qed

text \<open>
  Both thresholds met (5, on a chain whose offline decision is 1); amount below a
  threshold (offline: 3); the scenario of the specification, USDC.e without record
  (offline: 3); the same with a destination token outside the registry (offline: 1).
\<close>

theorem getPartCountOnline_decision_witness:
  "fst (getPartCountOnline decimalBigNumber (respondsWith 0 [Some btcThreshold, Some usdceThreshold])
     nativeToken usdceToken ''2000000'' 9999 apiUrl None (Some 3) emptyWorld) = Inr 5
   \<and> fst (getPartCountOnline decimalBigNumber (respondsWith 0 [Some btcThreshold, Some usdceThreshold])
     nativeToken usdceToken ''100'' 3637 apiUrl None (Some 3) emptyWorld) = Inr 3
   \<and> fst (getPartCountOnline decimalBigNumber (respondsWith 0 [Some btcThreshold])
     nativeToken usdceToken ''2000000'' 3637 apiUrl None (Some 3) emptyWorld) = Inr 3
   \<and> fst (getPartCountOnline decimalBigNumber (respondsWith 0 [Some btcThreshold])
     nativeToken mockToken ''2000000'' 3637 apiUrl None (Some 3) emptyWorld) = Inr 1"
  using getPartCountOnline_decision [of decimalBigNumber
      "respondsWith 0 [Some btcThreshold, Some usdceThreshold]"
      nativeToken usdceToken "''2000000''" 9999 apiUrl None "Some 3" emptyWorld]
    getPartCountOnline_decision [of decimalBigNumber "respondsWith 0 [Some btcThreshold]"
      nativeToken usdceToken "''2000000''" 3637 apiUrl None "Some 3" emptyWorld]
  by (simp add: online_eval)

text \<open>
  C3. \<open>getPartCountOnline\<close> never raises: for every input it returns an integer. Whenever
  its \<open>try\<close> block throws, whatever the exception and wherever it is thrown, and in
  particular whenever the thresholds cannot be obtained (the request rejects or times
  out, or the payload is unsuccessful), the integer is the offline decision.
\<close>

theorem getPartCountOnline_never_raises:
  "(\<exists>n w'. getPartCountOnline bn env s d a chain url key fb w = (Inr n, w'))
   \<and> (\<forall>e. fst (getPartCountOnline_try bn env s d a chain url key (withDefault 5 fb) w) = Inl e
          \<longrightarrow> fst (getPartCountOnline bn env s d a chain url key fb w) =
                Inr (getPartCountOffline (Some s) (Some d) chain (Some (withDefault 5 fb))))
   \<and> (\<forall>e. fst (getMinimumAmounts env url key w) = Inl e
          \<longrightarrow> fst (getPartCountOnline bn env s d a chain url key fb w) =
                Inr (getPartCountOffline (Some s) (Some d) chain (Some (withDefault 5 fb))))"
proof -
  have same: "getPartCountOnline bn env s d a chain url key (Some (withDefault 5 fb)) w =
      getPartCountOnline bn env s d a chain url key fb w"
    by (simp add: getPartCountOnline_def withDefault_Some)
  have throws: "fst (getPartCountOnline bn env s d a chain url key fb w) =
                Inr (getPartCountOffline (Some s) (Some d) chain (Some (withDefault 5 fb)))"
    if "fst (getPartCountOnline_try bn env s d a chain url key (withDefault 5 fb) w) = Inl e" for e
    using getPartCountOnline_try_throws [OF that] same by simp
  have fails: "fst (getPartCountOnline bn env s d a chain url key fb w) =
                Inr (getPartCountOffline (Some s) (Some d) chain (Some (withDefault 5 fb)))"
    if "fst (getMinimumAmounts env url key w) = Inl e" for e
    using throws [OF fetch_failure_throws [OF that]] .
  show ?thesis
    using getPartCountOnline_returns [of bn env s d a chain url key fb w] throws fails
    by (intro conjI allI impI)
qed

text \<open>
  The rejected request of the test suite (offline: 5), an unsuccessful payload and a
  payload with a \<open>null\<close> entry, which makes the lookup throw (offline: 7 for both).
\<close>

theorem getPartCountOnline_never_raises_witness:
  "fst (getMinimumAmounts apiErrorIo apiUrl None emptyWorld) = Inl (Error ''API Error'')
   \<and> fst (getPartCountOnline decimalBigNumber apiErrorIo highValueToken usdcToken
            ''1000000000000000000'' 3637 apiUrl None None emptyWorld) = Inr 5
   \<and> fst (getMinimumAmounts
            \<lparr>dateNow = 0, assetMinimum =
               Resolved \<lparr>resp_success = False, resp_error = None, resp_data = None\<rparr>\<rparr>
            apiUrl None emptyWorld) = Inl (Error ''API request failed: Unknown error'')
   \<and> fst (getPartCountOnline decimalBigNumber
            \<lparr>dateNow = 0, assetMinimum =
               Resolved \<lparr>resp_success = False, resp_error = None, resp_data = None\<rparr>\<rparr>
            highValueToken usdcToken ''1000000000000000000'' 3637 apiUrl None (Some 7) emptyWorld) = Inr 7
   \<and> fst (getPartCountOnline_try decimalBigNumber (respondsWith 0 [Some btcThreshold, None])
            nativeToken usdceToken ''2000000'' 3637 apiUrl None 7 emptyWorld) =
       Inl (TypeError ''Cannot read properties of null (reading token)'')
   \<and> fst (getPartCountOnline decimalBigNumber (respondsWith 0 [Some btcThreshold, None])
            nativeToken usdceToken ''2000000'' 3637 apiUrl None (Some 7) emptyWorld) = Inr 7"
  using getPartCountOnline_never_raises [of decimalBigNumber apiErrorIo highValueToken usdcToken
      "''1000000000000000000''" 3637 apiUrl None None emptyWorld]
    getPartCountOnline_never_raises [of decimalBigNumber "respondsWith 0 [Some btcThreshold, None]"
      nativeToken usdceToken "''2000000''" 3637 apiUrl None "Some 7" emptyWorld]
  by (simp add: online_eval)

text \<open>
  C8. The threshold lookup of \<open>getPartCountOnline\<close> applies no network filter: with the
  other inputs, the clock, the fetched data and the state fixed, there is one decision
  \<open>met\<close> and one final state (cache, console, requests issued) for all chain ids; the
  function returns 5 for every chain id when \<open>met\<close> holds and the offline decision of
  the chain id otherwise, and \<open>met\<close> holds exactly when the last console line is the one
  of the return-5 branch.
\<close>

theorem getPartCountOnline_chain_independent:
  "\<exists>met w'.
     (\<forall>chain. getPartCountOnline bn env s d a chain url key fb w =
        (Inr (if met then 5
              else getPartCountOffline (Some s) (Some d) chain (Some (withDefault 5 fb))), w'))
     \<and> (met \<longleftrightarrow> last (console w') = Log msgMeets)"
proof -
  let ?w0 = "consoleLog ''Fetching online partCount data...'' w"
  let ?caught = "\<lambda>e w1. consoleLog ''Falling back to offline partCount logic''
                   (consoleWarn ''Failed to fetch online partCount data:'' e w1)"
  obtain r w1 where g: "getMinimumAmounts env url key ?w0 = (r, w1)"
    by (cases "getMinimumAmounts env url key ?w0")
  show ?thesis
  proof (cases r)
    case (Inl e)
    show ?thesis
      by (rule exI [of _ False], rule exI [of _ "?caught e w1"])
         (simp add: getPartCountOnline_def getPartCountOnline_try_def g Inl last_consoleLog
            msgMeets_distinct)
  next
    case (Inr records)
    show ?thesis
    proof (cases "find_js (tokenMatches s) records")
      case (Inl e)
      show ?thesis
        by (rule exI [of _ False], rule exI [of _ "?caught e w1"])
           (simp add: getPartCountOnline_def getPartCountOnline_try_def g Inr Inl last_consoleLog
              msgMeets_distinct)
    next
      case srcFound: (Inr srcTokenMin)
      show ?thesis
      proof (cases "find_js (tokenMatches d) records")
        case (Inl e)
        show ?thesis
          by (rule exI [of _ False], rule exI [of _ "?caught e w1"])
             (simp add: getPartCountOnline_def getPartCountOnline_try_def g Inr srcFound Inl
                last_consoleLog msgMeets_distinct)
      next
        case dstFound: (Inr dstTokenMin)
        show ?thesis
        proof (cases "meetsMinimum bn (bn a) srcTokenMin \<and> meetsMinimum bn (bn a) dstTokenMin")
          case True
          then show ?thesis
            by (intro exI [of _ True] exI [of _ "consoleLog msgMeets w1"])
               (simp add: getPartCountOnline_def getPartCountOnline_try_def g Inr srcFound dstFound
                  last_consoleLog)
        next
          case False
          then show ?thesis
            by (intro exI [of _ False] exI [of _ "consoleLog msgBelow w1"])
               (auto simp: getPartCountOnline_def getPartCountOnline_try_def g Inr srcFound dstFound
                  last_consoleLog msgMeets_distinct)
        qed
      qed
    qed
  qed
qed

text \<open>
  With both thresholds met, chain 3637 and the unknown chain 9999 give the same result
  and state; with USDC.e's record missing, the states agree and the values are the two
  chains' offline decisions.
\<close>

theorem getPartCountOnline_chain_independent_witness:
  "getPartCountOnline decimalBigNumber (respondsWith 0 [Some btcThreshold, Some usdceThreshold])
     nativeToken usdceToken ''2000000'' 3637 apiUrl None (Some 3) emptyWorld =
   getPartCountOnline decimalBigNumber (respondsWith 0 [Some btcThreshold, Some usdceThreshold])
     nativeToken usdceToken ''2000000'' 9999 apiUrl None (Some 3) emptyWorld
   \<and> snd (getPartCountOnline decimalBigNumber (respondsWith 0 [Some btcThreshold])
     nativeToken usdceToken ''2000000'' 3637 apiUrl None (Some 3) emptyWorld) =
     snd (getPartCountOnline decimalBigNumber (respondsWith 0 [Some btcThreshold])
     nativeToken usdceToken ''2000000'' 9999 apiUrl None (Some 3) emptyWorld)
   \<and> fst (getPartCountOnline decimalBigNumber (respondsWith 0 [Some btcThreshold])
     nativeToken usdceToken ''2000000'' 3637 apiUrl None (Some 3) emptyWorld) = Inr 3
   \<and> fst (getPartCountOnline decimalBigNumber (respondsWith 0 [Some btcThreshold])
     nativeToken usdceToken ''2000000'' 9999 apiUrl None (Some 3) emptyWorld) = Inr 1"
  using getPartCountOnline_chain_independent [of decimalBigNumber
      "respondsWith 0 [Some btcThreshold, Some usdceThreshold]" nativeToken usdceToken
      "''2000000''" apiUrl None "Some 3" emptyWorld]
  by (simp add: online_eval)

text \<open>
  C10. \<open>getPartCountWithFallback\<close> returns what \<open>getPartCountOnline\<close> returns for the same
  arguments (value and state), whether or not \<open>fallbackPartCount\<close> is given: the online
  function never throws, so the \<open>catch\<close> branch that would return \<open>fallbackPartCount\<close>
  as it is cannot be reached.
\<close>

theorem getPartCountWithFallback_eq_online:
  "getPartCountWithFallback bn env s d a chain url fb key w =
   getPartCountOnline bn env s d a chain url key fb w"
proof -
  obtain n w' where r:
    "getPartCountOnline bn env s d a chain url key (Some (withDefault 5 fb)) w = (Inr n, w')"
    using getPartCountOnline_returns by blast
  have same: "getPartCountOnline bn env s d a chain url key (Some (withDefault 5 fb)) w =
      getPartCountOnline bn env s d a chain url key fb w"
    by (simp add: getPartCountOnline_def withDefault_Some)
  show ?thesis
    using r same by (simp add: getPartCountWithFallback_def)
qed

section \<open>Token validation\<close>

lemma validateTokens_rejects_equal_addresses:
  "address s = address d \<Longrightarrow> \<not> validateTokens (Some s) (Some d)"
  by (simp add: validateTokens_def)

text \<open>
  C9 does not hold of \<open>validateTokens\<close>: the checksummed and the lowercase spelling of
  the pBTC address are the same address in lowercase, on the same chain, and
  \<open>validateTokens\<close> accepts the pair, because it compares the addresses as they are
  written.
\<close>

theorem validateTokens_accepts_same_address_in_other_case:
  "toLowerCase (address highValueToken) = toLowerCase (address lowerCaseToken)
   \<and> chainId highValueToken = chainId lowerCaseToken
   \<and> validateTokens (Some highValueToken) (Some lowerCaseToken)"
  by (simp add: validateTokens_def token_defs eval_lower)

section \<open>Properties of the amount splitting\<close>

lemma splitAmountFrom_sum:
  "ds \<noteq> [] \<Longrightarrow> sum_list (splitAmountFrom rnd a assigned ds) = a - assigned"
  by (induction rnd a assigned ds rule: splitAmountFrom.induct) (simp_all add: Let_def)

lemma splitAmountFrom_length: "length (splitAmountFrom rnd a assigned ds) = length ds"
  by (induction rnd a assigned ds rule: splitAmountFrom.induct) (simp_all add: Let_def)

lemma splitAmountFrom_nth:
  "Suc i < length ds \<Longrightarrow> splitAmountFrom rnd a assigned ds ! i = rnd (a * of_int (ds ! i) / 100)"
proof (induction rnd a assigned ds arbitrary: i rule: splitAmountFrom.induct)
  case (3 rnd a assigned d d' ds)
  then show ?case
    by (cases i) (simp_all add: Let_def)
qed simp_all

text \<open>
  With exact arithmetic and weights that sum to 100 nothing is left over: the last part
  is \<open>amountIn * distribution[i] / 100\<close> as well.
\<close>

lemma splitAmountFrom_exact:
  "ds \<noteq> [] \<Longrightarrow> assigned + a * of_int (sum_list ds) / 100 = a \<Longrightarrow>
   splitAmountFrom (\<lambda>x. x) a assigned ds = map (\<lambda>d. a * of_int d / 100) ds"
proof (induction "\<lambda>x::rat. x" a assigned ds rule: splitAmountFrom.induct)
  case (3 a assigned d d' ds)
  have "assigned + a * of_int d / 100 + a * of_int (sum_list (d' # ds)) / 100 = a"
    using 3(3) by (simp add: algebra_simps add_divide_distrib)
  with 3 show ?case by (simp add: Let_def)
qed (simp_all add: algebra_simps)

lemma splitAmount_exact:
  "sum_list ds = 100 \<Longrightarrow> splitAmount (\<lambda>x. x) a ds = map (\<lambda>d. a * of_int d / 100) ds"
  unfolding splitAmount_def by (rule splitAmountFrom_exact) auto

lemma validateRequest_Inr:
  assumes "validateRequest cfg bn req = Inr (net, s, d, amount)"
  shows "cfgNetworks cfg (reqChainId req) = Some net" "reqSrcToken req = Some s"
    "reqDstToken req = Some d" "bn (reqAmountIn req) = Finite amount" "0 < amount"
    "toLowerCase (address s) \<noteq> toLowerCase (address d)"
  using assms
  by (auto simp: validateRequest_def split: option.splits if_splits BigNumber.splits)

text \<open>The parts of a result that is not a wrap are the split of the request's amount.\<close>

lemma fetchRoute_parts:
  assumes "fetchRoute cfg bn env quote req w = (Inr res, w')" and "isWrap res = None"
  shows "\<exists>amount. bn (reqAmountIn req) = Finite amount
           \<and> amountInPerPart res = splitAmount (cfgRoundAmount cfg) amount (distributions res)"
proof (cases "validateRequest cfg bn req")
  case (Inl failure)
  with assms show ?thesis by (simp add: fetchRoute_def)
next
  case (Inr valid)
  obtain net s d amount where valid: "valid = (net, s, d, amount)"
    by (cases valid) auto
  have amount: "bn (reqAmountIn req) = Finite amount"
    using Inr valid by (simp add: validateRequest_Inr)
  have "amountInPerPart res = splitAmount (cfgRoundAmount cfg) amount (distributions res)"
    using assms Inr valid
    by (auto simp: fetchRoute_def wrapResult_def Let_def split: if_splits prod.splits outcome.splits)
  with amount show ?thesis by blast
qed

lemmas request_eval = swapRequest_def exampleConfig_def botanixNetworks_def validateRequest_def
  isNativeToken_def isWrappedToken_def decimalBigNumber_def parseUnsigned_def digitValue_def
  token_defs eval_lower

lemma intDigits_9999: "intDigits 9999 = ''9999''"
  by (simp add: intDigits_def natDigits.simps [of 9999] natDigits.simps [of 999]
      natDigits.simps [of 99] natDigits.simps [of 9])

lemmas batch_eval = runItem_def batchItem_def fetchRoute_def request_eval settle_def
  resolvePartCount_def getPartCountOffline_def isHighValueToken_registered registered_def
  highValueRegistry_def HIGH_VALUE_TOKENS_def exampleQuote_def splitAmount_def emptyWorld_def
  withDefault_def intDigits_9999

text \<open>
  C4. For every \<open>amountIn\<close>, every rounding and every sequence of integer weights that
  sums to 100, the parts computed from the weights are as many as the weights, every part
  but the last is the rounded \<open>amountIn * distribution[i] / 100\<close>, and the parts sum to
  exactly \<open>amountIn\<close>; so do the \<open>amountInPerPart\<close> of every result of \<open>fetchRoute\<close> that is
  not a wrap, for a request of amount \<open>amountIn\<close> and a quoted distribution that sums to
  100.
\<close>

theorem splitAmount_reconstructs:
  "sum_list distribution = 100 \<Longrightarrow>
     length (splitAmount rnd amountIn distribution) = length distribution
     \<and> sum_list (splitAmount rnd amountIn distribution) = amountIn
     \<and> (\<forall>i. Suc i < length distribution \<longrightarrow>
           splitAmount rnd amountIn distribution ! i = rnd (amountIn * of_int (distribution ! i) / 100))
     \<and> (\<forall>cfg bn env quote req w res w'.
           fetchRoute cfg bn env quote req w = (Inr res, w') \<and> isWrap res = None
           \<and> distributions res = distribution \<and> bn (reqAmountIn req) = Finite amountIn
           \<longrightarrow> sum_list (amountInPerPart res) = amountIn)"
proof (intro impI conjI allI)
  assume total: "sum_list distribution = 100"
  then have ne: "distribution \<noteq> []" by auto
  show "length (splitAmount rnd amountIn distribution) = length distribution"
    by (simp add: splitAmount_def splitAmountFrom_length)
  show sum: "sum_list (splitAmount rnd amountIn distribution) = amountIn" for rnd
    using ne by (simp add: splitAmount_def splitAmountFrom_sum)
  show "splitAmount rnd amountIn distribution ! i = rnd (amountIn * of_int (distribution ! i) / 100)"
    if "Suc i < length distribution" for i
    using that by (simp add: splitAmount_def splitAmountFrom_nth)
  show "sum_list (amountInPerPart res) = amountIn"
    if "fetchRoute cfg bn env quote req w = (Inr res, w') \<and> isWrap res = None
        \<and> distributions res = distribution \<and> bn (reqAmountIn req) = Finite amountIn"
    for cfg bn env quote req w res w'
  proof -
    from that have run: "fetchRoute cfg bn env quote req w = (Inr res, w')"
      and plain: "isWrap res = None"
      and weights: "distributions res = distribution"
      and given: "bn (reqAmountIn req) = Finite amountIn"
      by simp_all
    from fetchRoute_parts [OF run plain] obtain amount where "bn (reqAmountIn req) = Finite amount"
      and "amountInPerPart res = splitAmount (cfgRoundAmount cfg) amount (distributions res)"
      by blast
    with weights given sum show ?thesis by simp
  qed
qed

text \<open>
  1001 split by the weights 33, 33, 34 with rounding down: 330, 330 and the last part
  341, which takes the residual.
\<close>

theorem splitAmount_reconstructs_witness:
  "sum_list [33, 33, 34 :: int] = 100
   \<and> splitAmount (\<lambda>x. of_int \<lfloor>x\<rfloor>) 1001 [33, 33, 34] = [330, 330, 341]
   \<and> sum_list (splitAmount (\<lambda>x. of_int \<lfloor>x\<rfloor>) 1001 [33, 33, 34]) = 1001"
proof -
  have total: "sum_list [33, 33, 34 :: int] = 100"
    by simp
  have floor: "\<lfloor>(33033 :: rat) / 100\<rfloor> = 330"
    by (rule floor_unique) simp_all
  have parts: "splitAmount (\<lambda>x. of_int \<lfloor>x\<rfloor>) 1001 [33, 33, 34] = [330, 330, 341]"
    by (simp add: splitAmount_def Let_def floor)
  from splitAmount_reconstructs [OF total, of "\<lambda>x. of_int \<lfloor>x\<rfloor>" 1001]
  have "sum_list (splitAmount (\<lambda>x. of_int \<lfloor>x\<rfloor>) 1001 [33, 33, 34]) = 1001"
    by (elim conjE)
  with total parts show ?thesis
    by (intro conjI)
qed

section \<open>Properties of batches\<close>

lemma runBatch_length: "length (fst (runBatch defaults bn items w)) = length items"
  by (induction items arbitrary: w) (simp_all add: split_beta)

lemma runBatch_nth:
  "i < length items \<Longrightarrow>
   fst (runBatch defaults bn items w) ! i =
     settle (fst (runItem defaults bn (items ! i) (snd (runBatch defaults bn (take i items) w))))"
proof (induction items arbitrary: w i)
  case Nil
  then show ?case by simp
next
  case (Cons item items)
  show ?case
  proof (cases i)
    case 0
    then show ?thesis by (simp add: split_beta)
  next
    case (Suc j)
    with Cons.prems have "j < length items" by simp
    from Cons.IH [OF this] Suc show ?thesis
      by (simp add: split_beta)
  qed
qed

lemma settle_failure:
  "settle (Inl failure) =
     \<lparr>success = False, swapData = None, errorMessage = Some (failureMessage failure)\<rparr>"
  by (simp add: settle_def)

text \<open>
  C6. For every sequence of batch items, \<open>runBatch\<close> returns as many results as there
  are items; the result at index \<open>i\<close> is the settled outcome of running item \<open>i\<close> (in the
  state the items before it left); when that run fails, the result at index \<open>i\<close> is
  \<open>{success: false, error: message}\<close> with the failure's message, and the other indices
  are not affected. Nothing is assumed about which items fail, so this holds when all do.
\<close>

theorem runBatch_aligned:
  "length (fst (runBatch defaults bn items w)) = length items
   \<and> (\<forall>i < length items.
         fst (runBatch defaults bn items w) ! i =
           settle (fst (runItem defaults bn (items ! i) (snd (runBatch defaults bn (take i items) w)))))
   \<and> (\<forall>i < length items. \<forall>failure.
         fst (runItem defaults bn (items ! i) (snd (runBatch defaults bn (take i items) w))) = Inl failure
         \<longrightarrow> fst (runBatch defaults bn items w) ! i =
               \<lparr>success = False, swapData = None, errorMessage = Some (failureMessage failure)\<rparr>)"
proof (intro conjI allI impI)
  show "length (fst (runBatch defaults bn items w)) = length items"
    by (rule runBatch_length)
  show "fst (runBatch defaults bn items w) ! i =
      settle (fst (runItem defaults bn (items ! i) (snd (runBatch defaults bn (take i items) w))))"
    if "i < length items" for i
    using that by (rule runBatch_nth)
  show "fst (runBatch defaults bn items w) ! i =
      \<lparr>success = False, swapData = None, errorMessage = Some (failureMessage failure)\<rparr>"
    if "i < length items"
      and "fst (runItem defaults bn (items ! i) (snd (runBatch defaults bn (take i items) w))) = Inl failure"
    for i failure
    using runBatch_nth [OF that(1), of defaults bn w] that(2) by (simp add: settle_failure)
qed

text \<open>
  The batch of the test suite (the first item on the unsupported chain 9999, the second
  a market swap), and a batch in which both items fail.
\<close>

theorem runBatch_aligned_witness:
  "fst (runBatch exampleConfig decimalBigNumber
         [batchItem (swapRequest ''1000000000000000000'' highValueToken nativeToken 9999),
          batchItem (swapRequest ''2000000000000000000'' highValueToken usdceToken 3637)] emptyWorld) =
     [\<lparr>success = False, swapData = None, errorMessage = Some ''Unsupported network: 9999''\<rparr>,
      \<lparr>success = True,
        swapData = Some \<lparr>routes = [[exampleSegment]], distributions = [100],
                         amountOutPerRoute = [96093446470], amountOutTotal = 96093446470,
                         amountInPerPart = [2000000000000000000], isAmountOutError = False,
                         isWrap = None\<rparr>,
        errorMessage = None\<rparr>]
   \<and> fst (runBatch exampleConfig decimalBigNumber
         [batchItem (swapRequest ''1'' highValueToken nativeToken 9999),
          batchItem (swapRequest ''0'' highValueToken usdceToken 3637)] emptyWorld) =
     [\<lparr>success = False, swapData = None, errorMessage = Some ''Unsupported network: 9999''\<rparr>,
      \<lparr>success = False, swapData = None, errorMessage = Some ''Amount must be positive''\<rparr>]"
  using runBatch_aligned [of exampleConfig decimalBigNumber
      "[batchItem (swapRequest ''1000000000000000000'' highValueToken nativeToken 9999),
        batchItem (swapRequest ''2000000000000000000'' highValueToken usdceToken 3637)]" emptyWorld]
    runBatch_aligned [of exampleConfig decimalBigNumber
      "[batchItem (swapRequest ''1'' highValueToken nativeToken 9999),
        batchItem (swapRequest ''0'' highValueToken usdceToken 3637)]" emptyWorld]
  by (simp add: batch_eval)

end
